theory Spec2Isabelle
  imports Complex_Main "HOL-Library.Char_ord" "HOL-Library.List_Lexorder" "HOL-Library.AList"
begin

section \<open>Python values used by both projects\<close>

text \<open>
  Exceptions are values. Strings are \<open>char list\<close>s of ASCII text, compared
  lexicographically by character code as Python compares \<open>str\<close>.
\<close>

datatype py_error =
  ValueError | TypeError | KeyError | IndexError | ZeroDivisionError | OverflowError

text \<open>A \<open>dict\<close> keeps insertion order: an association list with distinct keys, read with
  \<open>map_of\<close> and written with \<open>AList.update\<close> (replace in place, else append).\<close>

type_synonym ('k, 'v) dict = "('k \<times> 'v) list"

subsection \<open>Floats\<close>

text \<open>
  A Python \<open>float\<close> is a double. The model follows a float only while it is an integer of
  magnitude at most \<open>2 ^ 53\<close> (\<open>exact_bound\<close>): every such number is a double, and an arithmetic operation
  whose exact result is such a number returns that number. Where the exact result of an
  operation is anything else (the double would be rounded, or infinite, or the operation
  would raise on overflow), the model does not say what happens: the outcome is
  \<open>Undetermined\<close>, and so is the outcome of everything that follows it.
\<close>

datatype 'a outcome = Raises py_error | Returns 'a | Undetermined

definition and_then :: "'a outcome \<Rightarrow> ('a \<Rightarrow> 'b outcome) \<Rightarrow> 'b outcome" where
  "and_then m f = (case m of Raises e \<Rightarrow> Raises e | Returns x \<Rightarrow> f x | Undetermined \<Rightarrow> Undetermined)"

definition exact_bound :: real where
  "exact_bound = 2 ^ 53"

definition overflow_bound :: real where
  "overflow_bound = 2 ^ 1024"

definition exact :: "real \<Rightarrow> bool" where
  "exact x = (of_int \<lfloor>x\<rfloor> = x \<and> \<bar>x\<bar> \<le> exact_bound)"

definition float_of :: "real \<Rightarrow> real outcome" where
  "float_of x = (if exact x then Returns x else Undetermined)"

text \<open>\<open>a / b\<close> on two \<open>int\<close>s: the correctly rounded quotient; a quotient beyond the doubles
  is an \<open>OverflowError\<close>.\<close>

definition int_truediv :: "int \<Rightarrow> int \<Rightarrow> real outcome" where
  "int_truediv a b =
     (if b = 0 then Raises ZeroDivisionError
      else if overflow_bound \<le> \<bar>real_of_int a / real_of_int b\<bar> then Raises OverflowError
      else float_of (real_of_int a / real_of_int b))"

text \<open>The conversion of the \<open>int\<close> operand in mixed arithmetic: an \<open>int\<close> beyond the
  doubles is an \<open>OverflowError\<close>.\<close>

definition int_to_float :: "int \<Rightarrow> real outcome" where
  "int_to_float x =
     (if overflow_bound \<le> \<bar>real_of_int x\<bar> then Raises OverflowError
      else float_of (real_of_int x))"

text \<open>\<open>x - m\<close> for an \<open>int\<close> \<open>x\<close> and a float \<open>m\<close>.\<close>

definition int_sub :: "int \<Rightarrow> real \<Rightarrow> real outcome" where
  "int_sub x m = and_then (int_to_float x) (\<lambda>fx. float_of (fx - m))"

text \<open>\<open>x / y\<close> on two floats, and on a float and an \<open>int\<close>.\<close>

definition float_truediv :: "real \<Rightarrow> real \<Rightarrow> real outcome" where
  "float_truediv x y = (if y = 0 then Raises ZeroDivisionError else float_of (x / y))"

definition float_div_int :: "real \<Rightarrow> int \<Rightarrow> real outcome" where
  "float_div_int x k = and_then (int_to_float k) (\<lambda>d. float_truediv x d)"

text \<open>\<open>x ** 2\<close> and \<open>x ** 0.5\<close> on a float. The root is followed only when it is itself an
  integer.\<close>

definition fpow2 :: "real \<Rightarrow> real outcome" where
  "fpow2 x = float_of (x * x)"

definition fsqrt :: "real \<Rightarrow> real outcome" where
  "fsqrt x =
     (if exact x \<and> 0 \<le> x
      then (case find (\<lambda>k. k * k = nat \<lfloor>x\<rfloor>) [0 ..< Suc (nat \<lfloor>x\<rfloor>)] of
              Some k \<Rightarrow> Returns (real k)
            | None \<Rightarrow> Undetermined)
      else Undetermined)"

text \<open>\<open>round(x, 4)\<close>: an integer is returned as it is.\<close>

definition round4 :: "real \<Rightarrow> real outcome" where
  "round4 x = float_of x"

text \<open>A running float sum: \<open>sum(f(x) for x in xs)\<close>, and the loops \<open>acc += f(x)\<close>. Each
  term is produced, then added.\<close>

fun fsum :: "('a \<Rightarrow> real outcome) \<Rightarrow> 'a list \<Rightarrow> real \<Rightarrow> real outcome" where
  "fsum f [] acc = Returns acc"
| "fsum f (x # xs) acc =
     and_then (f x) (\<lambda>v. and_then (float_of (acc + v)) (\<lambda>acc'. fsum f xs acc'))"

subsection \<open>Strings\<close>

definition is_space :: "char \<Rightarrow> bool" where
  "is_space c = (c \<in> {CHR '' '', CHR 0x09, CHR 0x0A, CHR 0x0B, CHR 0x0C, CHR 0x0D,
                       CHR 0x1C, CHR 0x1D, CHR 0x1E, CHR 0x1F})"

definition py_strip :: "string \<Rightarrow> string" where
  "py_strip s = rev (dropWhile is_space (rev (dropWhile is_space s)))"

definition lower_char :: "char \<Rightarrow> char" where
  "lower_char c =
     (if CHR ''A'' \<le> c \<and> c \<le> CHR ''Z'' then char_of (of_char c + (32::nat)) else c)"

definition py_lower :: "string \<Rightarrow> string" where
  "py_lower s = map lower_char s"

definition is_digit :: "char \<Rightarrow> bool" where
  "is_digit c = (CHR ''0'' \<le> c \<and> c \<le> CHR ''9'')"

definition py_isdigit :: "string \<Rightarrow> bool" where
  "py_isdigit s = (s \<noteq> [] \<and> list_all is_digit s)"

text \<open>\<open>s.split(sep)\<close> for a one-character separator: never the empty list.\<close>

fun py_split :: "char \<Rightarrow> string \<Rightarrow> string list" where
  "py_split sep [] = [[]]"
| "py_split sep (c # cs) =
     (if c = sep then [] # py_split sep cs
      else (case py_split sep cs of
              [] \<Rightarrow> [[c]]
            | w # ws \<Rightarrow> (c # w) # ws))"

definition digit_value :: "char \<Rightarrow> int" where
  "digit_value c = int (of_char c) - 48"

definition int_of_digits :: "string \<Rightarrow> int" where
  "int_of_digits s = foldl (\<lambda>a c. 10 * a + digit_value c) 0 s"

text \<open>\<open>int(s)\<close> on a string: surrounding whitespace, an optional sign, then decimal digits
  in groups separated by single underscores. \<open>None\<close> is the \<open>ValueError\<close>.\<close>

definition py_int :: "string \<Rightarrow> int option" where
  "py_int s =
     (let t = py_strip s;
          (sign, body) = (case t of
                            [] \<Rightarrow> (1, [])
                          | c # cs \<Rightarrow> if c = CHR ''-'' then (- 1, cs)
                                      else if c = CHR ''+'' then (1, cs) else (1, t));
          groups = py_split (CHR ''_'') body
      in if list_all py_isdigit groups then Some (sign * int_of_digits (concat groups))
         else None)"

fun starts_with :: "string \<Rightarrow> string \<Rightarrow> bool" where
  "starts_with [] s = True"
| "starts_with (p # ps) [] = False"
| "starts_with (p # ps) (c # cs) = (p = c \<and> starts_with ps cs)"

text \<open>\<open>sub in s\<close> on strings.\<close>

fun py_contains :: "string \<Rightarrow> string \<Rightarrow> bool" where
  "py_contains sub [] = (sub = [])"
| "py_contains sub (c # cs) = (starts_with sub (c # cs) \<or> py_contains sub cs)"

section \<open>Project 1\<close>

subsection \<open>\<open>match_age_to_group\<close>\<close>

text \<open>The closed range of a label: keep digits and dashes, split at the dash, and accept
  exactly two digit strings. Anything else is a label the loop passes over.\<close>

definition closed_range :: "string \<Rightarrow> (int \<times> int) option" where
  "closed_range label =
     (let range_clean = filter (\<lambda>c. is_digit c \<or> c = CHR ''-'') label;
          bounds = py_split (CHR ''-'') range_clean
      in if length bounds = 2 \<and> py_isdigit (bounds ! 0) \<and> py_isdigit (bounds ! 1)
         then Some (int_of_digits (bounds ! 0), int_of_digits (bounds ! 1))
         else None)"

definition open_ended :: "string \<Rightarrow> bool" where
  "open_ended label = py_contains ''85 and over'' (py_lower label)"

fun match_age_to_group :: "int \<Rightarrow> string list \<Rightarrow> string option \<times> bool" where
  "match_age_to_group age [] = (None, False)"
| "match_age_to_group age (label # rest) =
     (if open_ended label then
        (if 85 \<le> age then (Some label, True) else match_age_to_group age rest)
      else
        (case closed_range label of
           Some (low, high) \<Rightarrow>
             if low \<le> age \<and> age \<le> high then (Some label, False)
             else match_age_to_group age rest
         | None \<Rightarrow> match_age_to_group age rest))"


subsection \<open>\<open>parse_area_data\<close>\<close>

text \<open>The four dictionaries the function returns, and the set of SA2 codes seen so far
  that its loop carries.\<close>

record area_index =
  sa2_to_sa3 :: "(string, string) dict"
  sa3_to_state :: "(string, string) dict"
  sa3_to_name :: "(string, string) dict"
  state_to_sa3_map :: "(string, string list) dict"
  seen_sa2_codes :: "string set"

definition empty_index :: area_index where
  "empty_index = \<lparr>sa2_to_sa3 = [], sa3_to_state = [], sa3_to_name = [],
                   state_to_sa3_map = [], seen_sa2_codes = {}\<rparr>"

text \<open>\<open>d.setdefault(k, []).append(v)\<close>\<close>

definition setdefault_append :: "'k \<Rightarrow> 'v \<Rightarrow> ('k, 'v list) dict \<Rightarrow> ('k, 'v list) dict" where
  "setdefault_append k v d =
     AList.update k ((case map_of d k of None \<Rightarrow> [] | Some l \<Rightarrow> l) @ [v]) d"

definition parse_area_line :: "area_index \<Rightarrow> string \<Rightarrow> area_index" where
  "parse_area_line ix line =
     (let fields = py_split (CHR '','') line
      in if length fields < 5 then ix
         else
           let state_name = py_lower (py_strip (fields ! 1));
               sa3_code = py_strip (fields ! 2);
               sa3_name = py_lower (py_strip (fields ! 3));
               sa2_code = py_strip (fields ! 4)
           in if sa2_code \<in> seen_sa2_codes ix then ix
              else \<lparr>sa2_to_sa3 = AList.update sa2_code sa3_code (sa2_to_sa3 ix),
                    sa3_to_state = AList.update sa3_code state_name (sa3_to_state ix),
                    sa3_to_name = AList.update sa3_code sa3_name (sa3_to_name ix),
                    state_to_sa3_map = setdefault_append state_name sa3_code (state_to_sa3_map ix),
                    seen_sa2_codes = insert sa2_code (seen_sa2_codes ix)\<rparr>)"

text \<open>\<open>sorted(set(l))\<close> is \<open>sort (remdups l)\<close>.\<close>

definition parse_area_data :: "string list \<Rightarrow> area_index" where
  "parse_area_data area_lines =
     (let ix = foldl parse_area_line empty_index (drop 1 area_lines)
      in ix\<lparr>state_to_sa3_map :=
              map (\<lambda>(state, l). (state, sort (remdups l))) (state_to_sa3_map ix)\<rparr>)"

subsection \<open>Output 1: the five-year bounds of the target age\<close>

fun age_bounds_loop :: "int \<Rightarrow> int list \<Rightarrow> int option \<times> int option" where
  "age_bounds_loop target_age [] = (None, None)"
| "age_bounds_loop target_age (lower # rest) =
     (let upper = lower + 4
      in if (lower \<le> target_age \<and> target_age \<le> upper) \<or> (lower = 85 \<and> 85 \<le> target_age)
         then (Some lower, if lower = 85 then None else Some upper)
         else age_bounds_loop target_age rest)"

definition age_bounds :: "int \<Rightarrow> int option \<times> int option" where
  "age_bounds target_age = age_bounds_loop target_age (map (\<lambda>k. 5 * int k) [0..<18])"

subsection \<open>Output 2: mean and sample standard deviation within the SA3\<close>

text \<open>\<open>int(x.strip() or 0)\<close>: an empty cell counts as 0; \<open>None\<close> is the \<open>ValueError\<close>.\<close>

definition int_cell :: "string \<Rightarrow> int option" where
  "int_cell x = (let s = py_strip x in if s = [] then Some 0 else py_int s)"

text \<open>\<open>int(columns[i].strip() or 0)\<close>\<close>

definition cell_at :: "string list \<Rightarrow> nat \<Rightarrow> py_error + int" where
  "cell_at columns i =
     (if i < length columns
      then (case int_cell (columns ! i) of None \<Rightarrow> Inl ValueError | Some v \<Rightarrow> Inr v)
      else Inl IndexError)"

text \<open>One count per population row whose SA2 lies in the SA3; a row that fails to parse
  contributes 0 (\<open>except Exception: age_group_counts.append(0)\<close>).\<close>

definition age_group_counts :: "string list \<Rightarrow> nat \<Rightarrow> string list \<Rightarrow> int list" where
  "age_group_counts population_lines age_group_index same_sa3_sa2s =
     concat (map (\<lambda>line.
        let columns = py_split (CHR '','') line;
            sa2 = py_strip (columns ! 0)
        in if sa2 \<in> set same_sa3_sa2s
           then (case cell_at columns (age_group_index + 2) of
                   Inl e \<Rightarrow> [0]
                 | Inr age_value \<Rightarrow> [age_value])
           else []) (drop 1 population_lines))"

text \<open>The mean and the standard deviation as computed at lines 129-138, before they are
  rounded.\<close>

definition mean_and_sd :: "int list \<Rightarrow> (real \<times> real) outcome" where
  "mean_and_sd counts =
     (if counts \<noteq> [] then
        and_then (int_truediv (sum_list counts) (int (length counts))) (\<lambda>mean_value.
          if 1 < length counts then
            and_then (fsum (\<lambda>x. and_then (int_sub x mean_value) fpow2) counts 0) (\<lambda>s.
            and_then (float_div_int s (int (length counts) - 1)) (\<lambda>variance.
            and_then (fsqrt variance) (\<lambda>std_dev. Returns (mean_value, std_dev))))
          else Returns (mean_value, 0))
      else Returns (0, 0))"

definition sa3_stats_entry ::
  "string list \<Rightarrow> nat \<Rightarrow> (string, string) dict \<Rightarrow> string \<Rightarrow> (string \<times> real \<times> real) outcome" where
  "sa3_stats_entry population_lines age_group_index s2 sa2_code =
     (case map_of s2 sa2_code of
        None \<Rightarrow> Returns (sa2_code, 0, 0)
      | Some sa3_code \<Rightarrow>
          if sa3_code = [] then Returns (sa2_code, 0, 0)
          else
            let same_sa3_sa2s = map fst (filter (\<lambda>(k, v). v = sa3_code) s2);
                counts = age_group_counts population_lines age_group_index same_sa3_sa2s
            in and_then (mean_and_sd counts) (\<lambda>(mean_value, std_dev).
               and_then (round4 mean_value) (\<lambda>m.
               and_then (round4 std_dev) (\<lambda>s. Returns (sa3_code, m, s)))))"

subsection \<open>Output 3: the SA3 with the highest count in each state\<close>

text \<open>\<open>d[k] = d.get(k, 0) + v\<close>\<close>

definition dict_add :: "'k \<Rightarrow> int \<Rightarrow> ('k, int) dict \<Rightarrow> ('k, int) dict" where
  "dict_add k v d = AList.update k ((case map_of d k of None \<Rightarrow> 0 | Some t \<Rightarrow> t) + v) d"

text \<open>\<open>d.get(k, 0)\<close>\<close>

definition get0 :: "('k, int) dict \<Rightarrow> 'k \<Rightarrow> int" where
  "get0 d k = (case map_of d k of None \<Rightarrow> 0 | Some t \<Rightarrow> t)"

text \<open>The row total counts only the cells that are digit strings, so their \<open>int\<close> never
  fails.\<close>

definition total_pop :: "string list \<Rightarrow> int" where
  "total_pop columns =
     sum_list (map (\<lambda>x. int_of_digits (py_strip x))
                   (filter (\<lambda>x. py_isdigit (py_strip x)) (drop 2 columns)))"

definition aggregate_line ::
  "(string, string) dict \<Rightarrow> nat \<Rightarrow> (string, int) dict \<times> (string, int) dict \<Rightarrow> string
     \<Rightarrow> (string, int) dict \<times> (string, int) dict" where
  "aggregate_line s2 age_group_index acc line =
     (let columns = py_split (CHR '','') line;
          sa2 = py_strip (columns ! 0)
      in case map_of s2 sa2 of
           None \<Rightarrow> acc
         | Some sa3 \<Rightarrow>
             if sa3 = [] then acc
             else (case cell_at columns (age_group_index + 2) of
                     Inl e \<Rightarrow> acc
                   | Inr age_count \<Rightarrow>
                       (dict_add sa3 age_count (fst acc),
                        dict_add sa3 (total_pop columns) (snd acc))))"

text \<open>The search over the SA3 codes of one state. \<open>sa3 < max_sa3\<close> with \<open>max_sa3\<close> still
  \<open>None\<close> is a \<open>TypeError\<close>; it is reached only on a total equal to the initial \<open>-1\<close>.\<close>

fun max_sa3_loop ::
  "(string, int) dict \<Rightarrow> string list \<Rightarrow> string option \<times> int \<Rightarrow> py_error + string option \<times> int" where
  "max_sa3_loop totals [] acc = Inr acc"
| "max_sa3_loop totals (sa3 # rest) (max_sa3, max_age_count) =
     (let age_total = get0 totals sa3
      in if max_age_count < age_total then max_sa3_loop totals rest (Some sa3, age_total)
         else if age_total = max_age_count then
           (case max_sa3 of
              None \<Rightarrow> Inl TypeError
            | Some m \<Rightarrow> if sa3 < m then max_sa3_loop totals rest (Some sa3, age_total)
                        else max_sa3_loop totals rest (max_sa3, max_age_count))
         else max_sa3_loop totals rest (max_sa3, max_age_count))"

definition state_entry ::
  "area_index \<Rightarrow> (string, int) dict \<Rightarrow> (string, int) dict \<Rightarrow> string
     \<Rightarrow> (string \<times> string \<times> real) outcome" where
  "state_entry ix age_total pop_total state =
     (case map_of (state_to_sa3_map ix) state of
        None \<Rightarrow> Raises KeyError
      | Some sa3s \<Rightarrow>
          (case max_sa3_loop age_total sa3s (None, - 1) of
             Inl e \<Rightarrow> Raises e
           | Inr (max_sa3, max_age_count) \<Rightarrow>
               let total = (case max_sa3 of None \<Rightarrow> 0 | Some s \<Rightarrow> get0 pop_total s);
                   name = (case max_sa3 of
                             None \<Rightarrow> []
                           | Some s \<Rightarrow> (case map_of (sa3_to_name ix) s of
                                          None \<Rightarrow> []
                                        | Some n \<Rightarrow> n))
               in and_then (if total \<noteq> 0 then int_truediv max_age_count total else Returns 0)
                    (\<lambda>proportion.
                  and_then (round4 proportion) (\<lambda>p. Returns (state, name, p)))))"

fun collect :: "('a \<Rightarrow> py_error + 'b) \<Rightarrow> 'a list \<Rightarrow> py_error + 'b list" where
  "collect f [] = Inr []"
| "collect f (x # xs) =
     (case f x of
        Inl e \<Rightarrow> Inl e
      | Inr y \<Rightarrow> (case collect f xs of Inl e \<Rightarrow> Inl e | Inr ys \<Rightarrow> Inr (y # ys)))"

text \<open>The same loop over a body that computes with floats.\<close>

fun collect_floats :: "('a \<Rightarrow> 'b outcome) \<Rightarrow> 'a list \<Rightarrow> 'b list outcome" where
  "collect_floats f [] = Returns []"
| "collect_floats f (x # xs) =
     and_then (f x) (\<lambda>y. and_then (collect_floats f xs) (\<lambda>ys. Returns (y # ys)))"

definition state_max_sa3 ::
  "string list \<Rightarrow> nat \<Rightarrow> area_index \<Rightarrow> (string \<times> string \<times> real) list outcome" where
  "state_max_sa3 population_lines age_group_index ix =
     (let (age_total, pop_total) =
            foldl (aggregate_line (sa2_to_sa3 ix) age_group_index) ([], [])
                  (drop 1 population_lines)
      in collect_floats (state_entry ix age_total pop_total)
           (sort (map fst (state_to_sa3_map ix))))"

subsection \<open>Output 4: Pearson correlation of the two age distributions\<close>

fun parse_cells :: "string list \<Rightarrow> int list option" where
  "parse_cells [] = Some []"
| "parse_cells (x # xs) =
     (case int_cell x of
        None \<Rightarrow> None
      | Some v \<Rightarrow> (case parse_cells xs of None \<Rightarrow> None | Some vs \<Rightarrow> Some (v # vs)))"

text \<open>The loop that extracts both distributions: a later matching row replaces an earlier
  one, and a cell of a matching row that is not an integer raises.\<close>

fun age_dists ::
  "string list \<Rightarrow> string \<Rightarrow> string \<Rightarrow> int list option \<times> int list option
     \<Rightarrow> py_error + int list option \<times> int list option" where
  "age_dists [] sa2_code_1 sa2_code_2 acc = Inr acc"
| "age_dists (line # rest) sa2_code_1 sa2_code_2 (age_dist_1, age_dist_2) =
     (let columns = py_split (CHR '','') line;
          sa2 = py_strip (columns ! 0)
      in case (if sa2 = sa2_code_1
               then (case parse_cells (drop 2 columns) of
                       None \<Rightarrow> Inl ValueError
                     | Some d \<Rightarrow> Inr (Some d))
               else Inr age_dist_1) of
           Inl e \<Rightarrow> Inl e
         | Inr a1 \<Rightarrow>
             (case (if sa2 = sa2_code_2
                    then (case parse_cells (drop 2 columns) of
                            None \<Rightarrow> Inl ValueError
                          | Some d \<Rightarrow> Inr (Some d))
                    else Inr age_dist_2) of
                Inl e \<Rightarrow> Inl e
              | Inr a2 \<Rightarrow> age_dists rest sa2_code_1 sa2_code_2 (a1, a2)))"

text \<open>Lines 204-215: both distributions are present, not empty and of one length.\<close>

definition pearson :: "int list \<Rightarrow> int list \<Rightarrow> real outcome" where
  "pearson age_dist_1 age_dist_2 =
     (let n = int (length age_dist_1)
      in and_then (int_truediv (sum_list age_dist_1) n) (\<lambda>mean1.
         and_then (int_truediv (sum_list age_dist_2) n) (\<lambda>mean2.
           if list_all (\<lambda>x. real_of_int x = mean1) age_dist_1
              \<or> list_all (\<lambda>y. real_of_int y = mean2) age_dist_2
           then Returns 0
           else
             and_then (fsum (\<lambda>(x, y). and_then (int_sub x mean1) (\<lambda>a.
                                        and_then (int_sub y mean2) (\<lambda>b. float_of (a * b))))
                         (zip age_dist_1 age_dist_2) 0) (\<lambda>numerator.
             and_then (fsum (\<lambda>x. and_then (int_sub x mean1) fpow2) age_dist_1 0) (\<lambda>s1.
             and_then (fsum (\<lambda>y. and_then (int_sub y mean2) fpow2) age_dist_2 0) (\<lambda>s2.
             and_then (float_of (s1 * s2)) (\<lambda>p.
             and_then (fsqrt p) (\<lambda>denominator.
             and_then (if denominator \<noteq> 0 then float_truediv numerator denominator
                       else Returns 0) round4))))))))"

definition correlation_of :: "int list option \<Rightarrow> int list option \<Rightarrow> real outcome" where
  "correlation_of age_dist_1 age_dist_2 =
     (case age_dist_1 of
        None \<Rightarrow> Returns 0
      | Some d1 \<Rightarrow>
          (case age_dist_2 of
             None \<Rightarrow> Returns 0
           | Some d2 \<Rightarrow>
               if d1 = [] \<or> d2 = [] \<or> length d1 \<noteq> length d2 then Returns 0
               else pearson d1 d2))"

text \<open>The body of the \<open>try\<close> of Output 4.\<close>

definition main_correlation :: "string list \<Rightarrow> string \<Rightarrow> string \<Rightarrow> real outcome" where
  "main_correlation population_lines sa2_code_1 sa2_code_2 =
     (case age_dists (drop 1 population_lines) sa2_code_1 sa2_code_2 (None, None) of
        Inl e \<Rightarrow> Raises e
      | Inr (age_dist_1, age_dist_2) \<Rightarrow> correlation_of age_dist_1 age_dist_2)"

subsection \<open>\<open>main\<close>\<close>

text \<open>\<open>[line.strip() for line in file if line.strip()]\<close>\<close>

definition read_lines :: "string list \<Rightarrow> string list" where
  "read_lines file = map py_strip (filter (\<lambda>line. py_strip line \<noteq> []) file)"

definition valid_sa2_code :: "string \<Rightarrow> bool" where
  "valid_sa2_code sa2_code = (py_isdigit (py_strip sa2_code) \<and> length (py_strip sa2_code) = 9)"

text \<open>\<open>labels.index(label)\<close>; \<open>None\<close> is the \<open>ValueError\<close>.\<close>

fun list_index :: "'a list \<Rightarrow> 'a \<Rightarrow> nat option" where
  "list_index [] a = None"
| "list_index (x # xs) a =
     (if x = a then Some 0 else (case list_index xs a of None \<Rightarrow> None | Some i \<Rightarrow> Some (Suc i)))"

type_synonym main_result =
  "(int option \<times> int option) \<times> (string \<times> real \<times> real) list \<times> (string \<times> string \<times> real) list \<times> real"

text \<open>
  \<open>main\<close> on the contents of the two files and an \<open>int\<close> age. \<open>Returns None\<close> is the
  \<open>return None\<close> that follows a printed error; \<open>Raises\<close> is an exception that leaves
  \<open>main\<close>, which only the statistics of Output 2 can raise, the other steps being inside a
  \<open>try\<close>.
\<close>

definition main ::
  "string list \<Rightarrow> string list \<Rightarrow> int \<Rightarrow> string \<Rightarrow> string \<Rightarrow> main_result option outcome" where
  "main area_file population_file target_age sa2_code_1 sa2_code_2 =
     (if target_age < 0 then Returns None
      else if \<not> valid_sa2_code sa2_code_1 \<or> \<not> valid_sa2_code sa2_code_2 then Returns None
      else
        let code_1 = py_strip sa2_code_1;
            code_2 = py_strip sa2_code_2;
            area_lines = read_lines area_file;
            population_lines = read_lines population_file
        in if length area_lines < 2 \<or> length population_lines < 2 then Returns None
           else
             let age_group_labels =
                   map py_strip (drop 2 (py_split (CHR '','') (population_lines ! 0)))
             in (case fst (match_age_to_group target_age age_group_labels) of
                   None \<Rightarrow> Returns None
                 | Some age_group_label \<Rightarrow>
                     (case list_index age_group_labels age_group_label of
                        None \<Rightarrow> Returns None
                      | Some age_group_index \<Rightarrow>
                          let ix = parse_area_data area_lines
                          in and_then
                               (collect_floats
                                  (sa3_stats_entry population_lines age_group_index (sa2_to_sa3 ix))
                                  [code_1, code_2]) (\<lambda>sa3_stats.
                             (case state_max_sa3 population_lines age_group_index ix of
                                Raises e \<Rightarrow> Returns None
                              | Undetermined \<Rightarrow> Undetermined
                              | Returns state_max \<Rightarrow>
                                  (case main_correlation population_lines code_1 code_2 of
                                     Raises e \<Rightarrow> Returns None
                                   | Undetermined \<Rightarrow> Undetermined
                                   | Returns correlation \<Rightarrow>
                                       Returns (Some (age_bounds target_age, sa3_stats,
                                                      state_max, correlation))))))))"

section \<open>Project 2\<close>

text \<open>A population record as \<open>read_population_file\<close> builds it: always the same four keys.
  An area row is the dictionary of one CSV line, with whatever columns the header names.\<close>

record pop_record =
  pop_sa2_name :: string
  pop_sa2_code :: string
  pop_age :: string
  pop_population :: int

type_synonym area_row = "(string, string) dict"

subsection \<open>\<open>clean_data\<close>\<close>

fun index_by_sa2_code ::
  "area_row list \<Rightarrow> (string, area_row) dict \<Rightarrow> py_error + (string, area_row) dict" where
  "index_by_sa2_code [] sa2_code_to_area = Inr sa2_code_to_area"
| "index_by_sa2_code (row # rows) sa2_code_to_area =
     (case map_of row ''sa2 code'' of
        None \<Rightarrow> Inl KeyError
      | Some c \<Rightarrow> index_by_sa2_code rows (AList.update (py_lower c) row sa2_code_to_area))"

text \<open>The loop over the population records; \<open>key = code + age\<close> is the concatenation of the
  two strings.\<close>

fun clean_loop ::
  "(string, area_row) dict \<Rightarrow> pop_record list \<Rightarrow> string set \<Rightarrow> area_row list \<times> pop_record list" where
  "clean_loop sa2_code_to_area [] seen = ([], [])"
| "clean_loop sa2_code_to_area (record # rest) seen =
     (let code = pop_sa2_code record;
          key = code @ pop_age record
      in case map_of sa2_code_to_area code of
           None \<Rightarrow> clean_loop sa2_code_to_area rest seen
         | Some area \<Rightarrow>
             if key \<in> seen then clean_loop sa2_code_to_area rest seen
             else
               let (cleaned_areas, cleaned_pops) =
                     clean_loop sa2_code_to_area rest (insert key seen)
               in (AList.update ''sa2 name'' (pop_sa2_name record) area # cleaned_areas,
                   record # cleaned_pops))"

definition clean_data ::
  "area_row list \<Rightarrow> pop_record list \<Rightarrow> py_error + area_row list \<times> pop_record list" where
  "clean_data area_rows pop_rows =
     (case index_by_sa2_code area_rows [] of
        Inl e \<Rightarrow> Inl e
      | Inr sa2_code_to_area \<Rightarrow> Inr (clean_loop sa2_code_to_area pop_rows {}))"

subsection \<open>\<open>create_area_lookup\<close>\<close>

record area_info =
  info_state_name :: string
  info_sa3_name :: string
  info_state_code :: string
  info_sa3_code :: string
  info_sa2_code :: string

type_synonym area_lookup = "(string, area_info) dict"

definition lower_field :: "area_row \<Rightarrow> string \<Rightarrow> py_error + string" where
  "lower_field area k = (case map_of area k of None \<Rightarrow> Inl KeyError | Some v \<Rightarrow> Inr (py_lower v))"

fun create_area_lookup_loop :: "area_row list \<Rightarrow> area_lookup \<Rightarrow> py_error + area_lookup" where
  "create_area_lookup_loop [] lookup = Inr lookup"
| "create_area_lookup_loop (area # rest) lookup =
     (case lower_field area ''sa2 name'' of Inl e \<Rightarrow> Inl e | Inr key \<Rightarrow>
     (case lower_field area ''state name'' of Inl e \<Rightarrow> Inl e | Inr stn \<Rightarrow>
     (case lower_field area ''sa3 name'' of Inl e \<Rightarrow> Inl e | Inr s3n \<Rightarrow>
     (case lower_field area ''state code'' of Inl e \<Rightarrow> Inl e | Inr stc \<Rightarrow>
     (case lower_field area ''sa3 code'' of Inl e \<Rightarrow> Inl e | Inr s3c \<Rightarrow>
     (case lower_field area ''sa2 code'' of Inl e \<Rightarrow> Inl e | Inr s2c \<Rightarrow>
        create_area_lookup_loop rest
          (AList.update key \<lparr>info_state_name = stn, info_sa3_name = s3n, info_state_code = stc,
                              info_sa3_code = s3c, info_sa2_code = s2c\<rparr> lookup)))))))"

definition create_area_lookup :: "area_row list \<Rightarrow> py_error + area_lookup" where
  "create_area_lookup area_rows = create_area_lookup_loop area_rows []"

subsection \<open>\<open>output_OP1\<close>\<close>

text \<open>\<open>results[age]\<close> holds the totals of the three levels: by state name, by SA3 name and
  by SA2 name.\<close>

type_synonym level_totals = "(string, int) dict \<times> (string, int) dict \<times> (string, int) dict"

definition op1_accumulate :: "area_lookup \<Rightarrow> (string, level_totals) dict \<Rightarrow> pop_record
     \<Rightarrow> (string, level_totals) dict" where
  "op1_accumulate lookup results record =
     (let sa2 = py_lower (pop_sa2_name record)
      in case map_of lookup sa2 of
           None \<Rightarrow> results
         | Some info \<Rightarrow>
             let pop = pop_population record;
                 (by_state, by_sa3, by_sa2) =
                    (case map_of results (pop_age record) of
                       None \<Rightarrow> ([], [], [])
                     | Some t \<Rightarrow> t)
             in AList.update (pop_age record)
                  (dict_add (info_state_name info) pop by_state,
                   dict_add (info_sa3_name info) pop by_sa3,
                   dict_add sa2 pop by_sa2) results)"

text \<open>One maximum search: the keys tied at the largest value so far, in iteration order.\<close>

fun max_keys_loop ::
  "(string \<times> int) list \<Rightarrow> int option \<times> string list \<Rightarrow> int option \<times> string list" where
  "max_keys_loop [] acc = acc"
| "max_keys_loop ((k, v) # rest) (max_value, max_keys) =
     (case max_value of
        None \<Rightarrow> max_keys_loop rest (Some v, [k])
      | Some m \<Rightarrow>
          if m < v then max_keys_loop rest (Some v, [k])
          else if v = m then max_keys_loop rest (max_value, max_keys @ [k])
          else max_keys_loop rest (max_value, max_keys))"

text \<open>\<open>max_keys.sort(); max_keys[0]\<close>\<close>

definition op1_winner :: "(string, int) dict \<Rightarrow> py_error + string" where
  "op1_winner totals =
     (case sort (snd (max_keys_loop totals (None, []))) of
        [] \<Rightarrow> Inl IndexError
      | k # ks \<Rightarrow> Inr k)"

definition op1_entry :: "string \<times> level_totals \<Rightarrow> py_error + string \<times> string \<times> string \<times> string" where
  "op1_entry e =
     (case e of (age, by_state, by_sa3, by_sa2) \<Rightarrow>
        (case op1_winner by_state of Inl x \<Rightarrow> Inl x | Inr max_state \<Rightarrow>
        (case op1_winner by_sa3 of Inl x \<Rightarrow> Inl x | Inr max_sa3 \<Rightarrow>
        (case op1_winner by_sa2 of Inl x \<Rightarrow> Inl x | Inr max_sa2 \<Rightarrow>
           Inr (age, max_state, max_sa3, max_sa2)))))"

definition output_OP1 ::
  "pop_record list \<Rightarrow> area_lookup \<Rightarrow> py_error + (string, string \<times> string \<times> string) dict" where
  "output_OP1 pop_rows lookup =
     collect op1_entry (foldl (op1_accumulate lookup) [] pop_rows)"

subsection \<open>\<open>calculate_sample_sd\<close>\<close>


subsection \<open>\<open>cosine_similarity\<close>\<close>

text \<open>The first loop reads \<open>list2[i]\<close> for every index of \<open>list1\<close>: a shorter \<open>list2\<close> is an
  \<open>IndexError\<close>, a longer one is read only that far.\<close>

definition cosine_similarity :: "real list \<Rightarrow> real list \<Rightarrow> real outcome" where
  "cosine_similarity list1 list2 =
     (if length list2 < length list1 then Raises IndexError
      else
        and_then (fsum (\<lambda>(a, b). float_of (a * b)) (zip list1 list2) 0) (\<lambda>dot.
        and_then (fsum (\<lambda>a. float_of (a * a)) list1 0) (\<lambda>n1.
        and_then (fsqrt n1) (\<lambda>norm1.
        and_then (fsum (\<lambda>b. float_of (b * b)) list2 0) (\<lambda>n2.
        and_then (fsqrt n2) (\<lambda>norm2.
          if norm1 = 0 \<or> norm2 = 0 then Returns 0
          else and_then (float_of (norm1 * norm2)) (\<lambda>d.
               and_then (float_truediv dot d) round4)))))))"

subsection \<open>\<open>output_OP3\<close>\<close>

text \<open>\<open>sa3_to_sa2[sa3][sa2][age] = pop\<close>: per SA3 name, per SA2 name, the count of each age
  label (a later record of the same SA2 and age replaces the earlier count).\<close>

type_synonym age_counts = "(string, int) dict"

type_synonym sa2_members = "(string, age_counts) dict"

definition op3_accumulate ::
  "area_lookup \<Rightarrow> (string, sa2_members) dict \<Rightarrow> pop_record \<Rightarrow> (string, sa2_members) dict" where
  "op3_accumulate lookup acc record =
     (let sa2 = py_lower (pop_sa2_name record)
      in case map_of lookup sa2 of
           None \<Rightarrow> acc
         | Some info \<Rightarrow>
             let sa3 = info_sa3_name info;
                 members = (case map_of acc sa3 of None \<Rightarrow> [] | Some m \<Rightarrow> m);
                 ages = (case map_of members sa2 of None \<Rightarrow> [] | Some a \<Rightarrow> a)
             in AList.update sa3
                  (AList.update sa2
                     (AList.update (pop_age record) (pop_population record) ages) members) acc)"

definition sa3_groups :: "pop_record list \<Rightarrow> area_lookup \<Rightarrow> (string, sa2_members) dict" where
  "sa3_groups pop_rows lookup = foldl (op3_accumulate lookup) [] pop_rows"

text \<open>The pairs \<open>(l[i], l[j])\<close> with \<open>i < j\<close>, in the order of the two nested loops.\<close>

fun all_pairs :: "'a list \<Rightarrow> ('a \<times> 'a) list" where
  "all_pairs [] = []"
| "all_pairs (x # xs) = map (Pair x) xs @ all_pairs xs"

text \<open>\<open>sa3_to_sa2[sa3][sa2]\<close> for an SA2 of the group. The loops read it only at keys of the
  group, where the lookup succeeds.\<close>

definition ages_of :: "sa2_members \<Rightarrow> string \<Rightarrow> age_counts" where
  "ages_of members sa2 = (case map_of members sa2 of None \<Rightarrow> [] | Some a \<Rightarrow> a)"

text \<open>The sorted union of the age labels of two SA2s, and the counts of one SA2 over it
  (\<open>get(age, 0)\<close>).\<close>

definition all_ages :: "age_counts \<Rightarrow> age_counts \<Rightarrow> string list" where
  "all_ages ages_a ages_b = sort (remdups (map fst ages_a @ map fst ages_b))"

definition pops_over :: "age_counts \<Rightarrow> string list \<Rightarrow> int list" where
  "pops_over ages labels = map (get0 ages) labels"

text \<open>The body of the inner loop: \<open>None\<close> is the \<open>continue\<close> taken when either sum is 0;
  the divisions by the sums, of \<open>int\<close>s, come after that test.\<close>

definition pair_similarity :: "age_counts \<Rightarrow> age_counts \<Rightarrow> real option outcome" where
  "pair_similarity ages_a ages_b =
     (let pop_a = pops_over ages_a (all_ages ages_a ages_b);
          pop_b = pops_over ages_b (all_ages ages_a ages_b);
          sum_a = sum_list pop_a;
          sum_b = sum_list pop_b
      in if sum_a = 0 \<or> sum_b = 0 then Returns None
         else
           and_then (collect_floats (\<lambda>x. int_truediv x sum_a) pop_a) (\<lambda>norm_a.
           and_then (collect_floats (\<lambda>y. int_truediv y sum_b) pop_b) (\<lambda>norm_b.
           and_then (cosine_similarity norm_a norm_b) (\<lambda>similarity_score.
             Returns (Some similarity_score)))))"

definition pair_entry ::
  "sa2_members \<Rightarrow> string \<times> string \<Rightarrow> (string \<times> string \<times> real) option outcome" where
  "pair_entry members p =
     (case p of (sa2a, sa2b) \<Rightarrow>
        and_then (pair_similarity (ages_of members sa2a) (ages_of members sa2b)) (\<lambda>r.
          case r of
            None \<Rightarrow> Returns None
          | Some similarity_score \<Rightarrow> Returns (Some (sa2a, sa2b, similarity_score))))"

text \<open>The list \<open>pairs\<close> of one SA3.\<close>

definition scored_pairs :: "sa2_members \<Rightarrow> (string \<times> string \<times> real) list outcome" where
  "scored_pairs members =
     and_then (collect_floats (pair_entry members) (all_pairs (sort (map fst members))))
       (\<lambda>rs. Returns (List.map_filter (\<lambda>r. r) rs))"

fun max_similarity_loop :: "(string \<times> string \<times> real) list \<Rightarrow> real option \<Rightarrow> real option" where
  "max_similarity_loop [] max_similarity = max_similarity"
| "max_similarity_loop (p # ps) max_similarity =
     (case max_similarity of
        None \<Rightarrow> max_similarity_loop ps (Some (snd (snd p)))
      | Some m \<Rightarrow>
          if m < snd (snd p) then max_similarity_loop ps (Some (snd (snd p)))
          else max_similarity_loop ps max_similarity)"

text \<open>\<open>pair_sort_key\<close>: the negated combined population, then the two names in order; and
  the comparison of two such tuples.\<close>

definition pair_sort_key :: "sa2_members \<Rightarrow> string \<times> string \<times> real \<Rightarrow> int \<times> string \<times> string" where
  "pair_sort_key members pair =
     (case pair of (p0, p1, s) \<Rightarrow>
        (- (sum_list (map snd (ages_of members p0)) + sum_list (map snd (ages_of members p1))),
         if p0 < p1 then (p0, p1) else (p1, p0)))"

definition key_less :: "int \<times> string \<times> string \<Rightarrow> int \<times> string \<times> string \<Rightarrow> bool" where
  "key_less k1 k2 =
     (case k1 of (n1, f1, s1) \<Rightarrow>
        (case k2 of (n2, f2, s2) \<Rightarrow>
           n1 < n2 \<or> (n1 = n2 \<and> (f1 < f2 \<or> (f1 = f2 \<and> s1 < s2)))))"

text \<open>The scan for the smallest key: the first pair with that key is kept.\<close>

fun best_pair_loop ::
  "sa2_members \<Rightarrow> (string \<times> string \<times> real) list \<Rightarrow> string \<times> string \<times> real
     \<Rightarrow> string \<times> string \<times> real" where
  "best_pair_loop members [] best = best"
| "best_pair_loop members (p # ps) best =
     (if key_less (pair_sort_key members p) (pair_sort_key members best)
      then best_pair_loop members ps p
      else best_pair_loop members ps best)"

text \<open>One SA3 of the loop over \<open>sa3_to_sa2\<close>: \<open>None\<close> when the SA3 is passed over (fewer than
  15 SA2s, or no scored pair).\<close>

definition op3_entry ::
  "string \<times> sa2_members \<Rightarrow> (string \<times> string \<times> string \<times> real) option outcome" where
  "op3_entry e =
     (case e of (sa3, members) \<Rightarrow>
        if length members < 15 then Returns None
        else
          and_then (scored_pairs members) (\<lambda>pairs.
            if pairs = [] then Returns None
            else
              let max_similarity = max_similarity_loop pairs None;
                  top_pairs = filter (\<lambda>p. Some (snd (snd p)) = max_similarity) pairs
              in (case top_pairs of
                    [] \<Rightarrow> Raises IndexError
                  | t # ts \<Rightarrow>
                      (case best_pair_loop members ts t of
                         (p0, p1, s) \<Rightarrow>
                           Returns (Some (sa3, if p0 < p1 then (p0, p1, s) else (p1, p0, s)))))))"

text \<open>The result dictionary, rebuilt in ascending order of the SA3 names.\<close>

definition output_OP3 ::
  "pop_record list \<Rightarrow> area_lookup \<Rightarrow> (string, string \<times> string \<times> real) dict outcome" where
  "output_OP3 pop_rows lookup =
     and_then (collect_floats op3_entry (sa3_groups pop_rows lookup))
       (\<lambda>rs. Returns (sort_key fst (List.map_filter (\<lambda>r. r) rs)))"

section \<open>Notions the statements use\<close>





subsection \<open>The rows of the area file\<close>

text \<open>The four fields \<open>parse_area_data\<close> reads from one line.\<close>

record area_fields =
  f_state_name :: string
  f_sa3_code :: string
  f_sa3_name :: string
  f_sa2_code :: string

text \<open>The fields of a line, or \<open>None\<close> for a line with fewer than five fields, which the
  loop passes over.\<close>

definition area_row :: "string \<Rightarrow> area_fields option" where
  "area_row line =
     (let fields = py_split (CHR '','') line
      in if length fields < 5 then None
         else Some \<lparr>f_state_name = py_lower (py_strip (fields ! 1)),
                    f_sa3_code = py_strip (fields ! 2),
                    f_sa3_name = py_lower (py_strip (fields ! 3)),
                    f_sa2_code = py_strip (fields ! 4)\<rparr>)"

text \<open>The fields of a line, or \<open>None\<close> for a line with fewer than five fields, which the
  loop passes over.\<close>

text \<open>The rows of all lines after the header.\<close>

definition area_rows :: "string list \<Rightarrow> area_fields list" where
  "area_rows area_lines = List.map_filter area_row (drop 1 area_lines)"

text \<open>The loop invariant: the seen codes are the keys of \<open>sa2_to_sa3\<close>, and no dictionary
  holds a key twice.\<close>

definition index_inv :: "area_index \<Rightarrow> bool" where
  "index_inv ix = (seen_sa2_codes ix = set (map fst (sa2_to_sa3 ix))
       \<and> distinct (map fst (sa2_to_sa3 ix)) \<and> distinct (map fst (sa3_to_state ix))
       \<and> distinct (map fst (sa3_to_name ix)) \<and> distinct (map fst (state_to_sa3_map ix)))"

text \<open>The rows the loop keeps: the first row of each SA2 code.\<close>

fun kept_rows_from :: "area_fields list \<Rightarrow> string set \<Rightarrow> area_fields list" where
  "kept_rows_from [] seen = []"
| "kept_rows_from (r # rs) seen =
     (if f_sa2_code r \<in> seen then kept_rows_from rs seen
      else r # kept_rows_from rs (insert (f_sa2_code r) seen))"

definition kept_rows :: "string list \<Rightarrow> area_fields list" where
  "kept_rows area_lines = kept_rows_from (area_rows area_lines) {}"

text \<open>What the loop does with a kept row.\<close>

definition add_row :: "area_index \<Rightarrow> area_fields \<Rightarrow> area_index" where
  "add_row ix r =
     \<lparr>sa2_to_sa3 = AList.update (f_sa2_code r) (f_sa3_code r) (sa2_to_sa3 ix),
      sa3_to_state = AList.update (f_sa3_code r) (f_state_name r) (sa3_to_state ix),
      sa3_to_name = AList.update (f_sa3_code r) (f_sa3_name r) (sa3_to_name ix),
      state_to_sa3_map = setdefault_append (f_state_name r) (f_sa3_code r) (state_to_sa3_map ix),
      seen_sa2_codes = insert (f_sa2_code r) (seen_sa2_codes ix)\<rparr>"

subsection \<open>Reconciliation\<close>

text \<open>The deduplication key of \<open>clean_data\<close>: the code followed by the age label.\<close>

definition pop_key :: "pop_record \<Rightarrow> string" where
  "pop_key record = pop_sa2_code record @ pop_age record"

text \<open>The area row \<open>clean_data\<close> emits for a kept record: the row of its code, with the
  record's SA2 name.\<close>

definition annotate :: "(string, area_row) dict \<Rightarrow> pop_record \<Rightarrow> area_row" where
  "annotate sa2_code_to_area record =
     (case map_of sa2_code_to_area (pop_sa2_code record) of
        None \<Rightarrow> []
      | Some area \<Rightarrow> AList.update ''sa2 name'' (pop_sa2_name record) area)"

subsection \<open>Maximum search\<close>

text \<open>The keys of a dictionary of totals whose value is the largest value.\<close>

definition tied_keys :: "(string \<times> int) list \<Rightarrow> string set" where
  "tied_keys totals = fst ` Set.filter (\<lambda>e. \<forall>e'\<in>set totals. snd e' \<le> snd e) (set totals)"

text \<open>The SA3 codes of a state whose total, read with default 0, is the largest.\<close>

definition tied_sa3 :: "(string, int) dict \<Rightarrow> string list \<Rightarrow> string set" where
  "tied_sa3 totals sa3s =
     Set.filter (\<lambda>s. \<forall>s'\<in>set sa3s. get0 totals s' \<le> get0 totals s) (set sa3s)"

text \<open>Every age of \<open>results\<close> has an entry at each of the three levels.\<close>

definition levels_nonempty :: "(string, level_totals) dict \<Rightarrow> bool" where
  "levels_nonempty results =
     (\<forall>(a, by_state, by_sa3, by_sa2)\<in>set results. by_state \<noteq> [] \<and> by_sa3 \<noteq> [] \<and> by_sa2 \<noteq> [])"

text \<open>The winners of one age: at each level the smallest key among those tied at that
  level's maximum.\<close>

definition op1_winners :: "string \<times> level_totals \<Rightarrow> string \<times> string \<times> string \<times> string" where
  "op1_winners e =
     (case e of (a, by_state, by_sa3, by_sa2) \<Rightarrow>
        (a, Min (tied_keys by_state), Min (tied_keys by_sa3), Min (tied_keys by_sa2)))"

text \<open>A dataset of four SA2s in two states, used to show winners that are not nested.\<close>

definition nested_example_lookup :: area_lookup where
  "nested_example_lookup =
     [(''albury'', \<lparr>info_state_name = ''new south wales'', info_sa3_name = ''albury'',
                    info_state_code = ''1'', info_sa3_code = ''10901'', info_sa2_code = ''109011172''\<rparr>),
      (''goulburn'', \<lparr>info_state_name = ''new south wales'', info_sa3_name = ''goulburn - mulwaree'',
                    info_state_code = ''1'', info_sa3_code = ''10101'', info_sa2_code = ''101011001''\<rparr>),
      (''carlton'', \<lparr>info_state_name = ''victoria'', info_sa3_name = ''melbourne city'',
                    info_state_code = ''2'', info_sa3_code = ''20604'', info_sa2_code = ''206041117''\<rparr>),
      (''docklands'', \<lparr>info_state_name = ''victoria'', info_sa3_name = ''melbourne city'',
                    info_state_code = ''2'', info_sa3_code = ''20604'', info_sa2_code = ''206041118''\<rparr>)]"

definition nested_example_pops :: "pop_record list" where
  "nested_example_pops =
     [\<lparr>pop_sa2_name = ''albury'', pop_sa2_code = ''109011172'', pop_age = ''0-4'', pop_population = 50\<rparr>,
      \<lparr>pop_sa2_name = ''goulburn'', pop_sa2_code = ''101011001'', pop_age = ''0-4'', pop_population = 50\<rparr>,
      \<lparr>pop_sa2_name = ''carlton'', pop_sa2_code = ''206041117'', pop_age = ''0-4'', pop_population = 40\<rparr>,
      \<lparr>pop_sa2_name = ''docklands'', pop_sa2_code = ''206041118'', pop_age = ''0-4'', pop_population = 40\<rparr>]"

section \<open>Properties of Project 1\<close>

subsection \<open>Age-group matching\<close>









subsection \<open>Floats\<close>

lemma overflow_bound_numeral [code]:
  "overflow_bound = 179769313486231590772930519078902473361797697894230657273430081157732675805500963132708477322407536021120113879871393357658789768814416622492847430639474124377767893424865485276302219601246094119453082952085005768838150682342462881473913110540827237163350510684586298239947245938479716304835356329624224137216"
  by (simp add: overflow_bound_def)

lemma exact_bound_numeral [code]: "exact_bound = 9007199254740992"
  by (simp add: exact_bound_def)

























subsection \<open>Mean and sample standard deviation\<close>









subsection \<open>Claims about the statistics\<close>




subsection \<open>Extraction of the two distributions\<close>






subsection \<open>Pearson correlation\<close>

























subsection \<open>\<open>main\<close> on the same code twice\<close>






text \<open>An age that no label of the header matches: \<open>main\<close> returns \<open>None\<close> before any
  output is computed.\<close>

lemma main_age_group_not_found:
  "main [''S_T code,S_T name,SA3 code,SA3 name,SA2 code,SA2 name'',
         ''4,South Australia,40101,Adelaide City,401011001,Adelaide'']
        [''Area_Code_Level2,Area_Name_Level2,0-4,5-9,10-14'',
         ''401011001,Adelaide,1,2,3''] 50 ''401011001'' ''401011001'' = Returns None"
  by code_simp

section \<open>The hierarchy index of Project 1\<close>

lemma parse_area_line_row:
  "parse_area_line ix line =
     (case area_row line of
        None \<Rightarrow> ix
      | Some r \<Rightarrow>
          if f_sa2_code r \<in> seen_sa2_codes ix then ix
          else \<lparr>sa2_to_sa3 = AList.update (f_sa2_code r) (f_sa3_code r) (sa2_to_sa3 ix),
                sa3_to_state = AList.update (f_sa3_code r) (f_state_name r) (sa3_to_state ix),
                sa3_to_name = AList.update (f_sa3_code r) (f_sa3_name r) (sa3_to_name ix),
                state_to_sa3_map = setdefault_append (f_state_name r) (f_sa3_code r) (state_to_sa3_map ix),
                seen_sa2_codes = insert (f_sa2_code r) (seen_sa2_codes ix)\<rparr>)"
  by (simp add: parse_area_line_def area_row_def Let_def)

lemma index_inv_empty: "index_inv empty_index"
  by (simp add: index_inv_def empty_index_def)

lemma index_inv_step:
  assumes "index_inv ix"
  shows "index_inv (parse_area_line ix line)"
proof (cases "area_row line")
  case None
  with assms show ?thesis by (simp add: parse_area_line_row)
next
  case (Some r)
  show ?thesis
  proof (cases "f_sa2_code r \<in> seen_sa2_codes ix")
    case True
    with Some assms show ?thesis by (simp add: parse_area_line_row)
  next
    case False
    with Some assms show ?thesis
      unfolding parse_area_line_row index_inv_def setdefault_append_def
      by (simp add: distinct_update update_keys)
  qed
qed

lemma index_inv_foldl: "index_inv ix \<Longrightarrow> index_inv (foldl parse_area_line ix ls)"
  by (induction ls arbitrary: ix) (simp_all add: index_inv_step)

lemma first_wins_foldl:
  "index_inv ix \<Longrightarrow>
   map_of (sa2_to_sa3 (foldl parse_area_line ix ls)) c =
     (case map_of (sa2_to_sa3 ix) c of
        Some v \<Rightarrow> Some v
      | None \<Rightarrow> map_option f_sa3_code (find (\<lambda>r. f_sa2_code r = c) (List.map_filter area_row ls)))"
proof (induction ls arbitrary: ix)
  case Nil
  show ?case by (simp add: List.map_filter_simps split: option.splits)
next
  case (Cons l ls)
  have inv': "index_inv (parse_area_line ix l)"
    using Cons.prems by (rule index_inv_step)
  have seen: "\<And>k. (k \<in> seen_sa2_codes ix) = (map_of (sa2_to_sa3 ix) k \<noteq> None)"
    using Cons.prems by (simp add: index_inv_def map_of_eq_None_iff)
  show ?case
    unfolding foldl_Cons Cons.IH[OF inv']
    by (cases "area_row l")
       (auto simp: parse_area_line_row List.map_filter_simps seen update_conv'
             split: option.splits)
qed

lemma foldl_kept:
  "foldl parse_area_line ix ls =
     foldl add_row ix (kept_rows_from (List.map_filter area_row ls) (seen_sa2_codes ix))"
proof (induction ls arbitrary: ix)
  case Nil
  show ?case by (simp add: List.map_filter_simps)
next
  case (Cons l ls)
  show ?case
  proof (cases "area_row l")
    case None
    then have p: "parse_area_line ix l = ix"
      by (simp add: parse_area_line_row)
    from None show ?thesis
      by (simp add: p List.map_filter_simps Cons.IH)
  next
    case (Some r)
    show ?thesis
    proof (cases "f_sa2_code r \<in> seen_sa2_codes ix")
      case True
      with Some have p: "parse_area_line ix l = ix"
        by (simp add: parse_area_line_row)
      from Some True show ?thesis
        by (simp add: p List.map_filter_simps Cons.IH)
    next
      case False
      with Some have p: "parse_area_line ix l = add_row ix r"
        by (simp add: parse_area_line_row add_row_def)
      have s: "seen_sa2_codes (add_row ix r) = insert (f_sa2_code r) (seen_sa2_codes ix)"
        by (simp add: add_row_def)
      from Some False show ?thesis
        by (simp add: List.map_filter_simps p Cons.IH s)
    qed
  qed
qed

lemma find_append_case:
  "find P (xs @ ys) = (case find P xs of None \<Rightarrow> find P ys | Some x \<Rightarrow> Some x)"
  by (induction xs) simp_all

lemma sa3_to_state_foldl:
  "map_of (sa3_to_state (foldl add_row ix K)) s3 =
     (case find (\<lambda>r. f_sa3_code r = s3) (rev K) of
        Some r \<Rightarrow> Some (f_state_name r)
      | None \<Rightarrow> map_of (sa3_to_state ix) s3)"
proof (induction K arbitrary: ix)
  case Nil
  show ?case by simp
next
  case (Cons r K)
  show ?case
    unfolding foldl_Cons Cons.IH
    by (auto simp: add_row_def update_conv' find_append_case split: option.splits)
qed

lemma state_list_foldl:
  "map_of (state_to_sa3_map (foldl add_row ix K)) st =
     (let new = map f_sa3_code (filter (\<lambda>r. f_state_name r = st) K)
      in case map_of (state_to_sa3_map ix) st of
           None \<Rightarrow> if new = [] then None else Some new
         | Some l \<Rightarrow> Some (l @ new))"
proof (induction K arbitrary: ix)
  case Nil
  show ?case by (simp split: option.splits)
next
  case (Cons r K)
  show ?case
    unfolding foldl_Cons Cons.IH
    by (auto simp: add_row_def setdefault_append_def update_conv' Let_def split: option.splits)
qed

lemma map_of_sorted_lists:
  "map_of (map (\<lambda>(state, l). (state, sort (remdups l))) d) st
     = map_option (\<lambda>l. sort (remdups l)) (map_of d st)"
  by (induction d) auto

lemma parse_area_data_state_list:
  "map_of (state_to_sa3_map (parse_area_data area_lines)) st =
     (let codes = map f_sa3_code (filter (\<lambda>r. f_state_name r = st) (kept_rows area_lines))
      in if codes = [] then None else Some (sort (remdups codes)))"
  by (simp add: parse_area_data_def Let_def map_of_sorted_lists foldl_kept state_list_foldl
        empty_index_def kept_rows_def area_rows_def)

lemma parse_area_data_sa3_to_state:
  "map_of (sa3_to_state (parse_area_data area_lines)) s3 =
     map_option f_state_name (find (\<lambda>r. f_sa3_code r = s3) (rev (kept_rows area_lines)))"
  by (simp add: parse_area_data_def Let_def foldl_kept sa3_to_state_foldl
        empty_index_def kept_rows_def area_rows_def split: option.splits)

lemma parse_area_data_first_wins:
  "map_of (sa2_to_sa3 (parse_area_data area_lines)) c =
     map_option f_sa3_code (find (\<lambda>r. f_sa2_code r = c) (area_rows area_lines))"
  using first_wins_foldl[OF index_inv_empty, of "drop 1 area_lines" c]
  by (simp add: parse_area_data_def Let_def area_rows_def empty_index_def)

lemma parse_area_data_distinct:
  "distinct (map fst (sa2_to_sa3 (parse_area_data area_lines))) \<and>
   distinct (map fst (sa3_to_state (parse_area_data area_lines))) \<and>
   distinct (map fst (state_to_sa3_map (parse_area_data area_lines)))"
proof -
  have "index_inv (foldl parse_area_line empty_index (drop 1 area_lines))"
    using index_inv_empty by (rule index_inv_foldl)
  then show ?thesis
    by (simp add: parse_area_data_def Let_def index_inv_def distinct_map comp_def
          case_prod_unfold inj_on_def) 
qed

lemma parse_area_data_sorted:
  "(state, l) \<in> set (state_to_sa3_map (parse_area_data area_lines)) \<Longrightarrow> sorted l \<and> distinct l"
  by (auto simp: parse_area_data_def Let_def)

lemma state_list_member:
  assumes "map_of (state_to_sa3_map (parse_area_data area_lines)) st = Some l" "s3 \<in> set l"
  shows "\<exists>r\<in>set (kept_rows area_lines). f_state_name r = st \<and> f_sa3_code r = s3"
proof -
  let ?codes = "map f_sa3_code (filter (\<lambda>r. f_state_name r = st) (kept_rows area_lines))"
  from assms(1) have "l = sort (remdups ?codes)"
    unfolding parse_area_data_state_list Let_def by (simp split: if_splits)
  with assms(2) have "s3 \<in> set ?codes" by simp
  then show ?thesis by auto
qed

text \<open>
  C4, amended. In the index built by \<open>parse_area_data\<close> no dictionary holds a key twice:
  each SA2 code has exactly one SA3 code, that of the first row with this SA2 code (later
  rows with a seen SA2 code are ignored), and \<open>sa3_to_state\<close> gives each SA3 code exactly
  one state, that of the last kept row naming it. The SA3 list of a state holds the SA3
  codes of the kept rows of that state, deduplicated and sorted ascending. When the kept
  rows place every SA3 code in one state only, no SA3 code appears in the lists of two
  states.
\<close>

theorem parse_area_data_hierarchy:
  "distinct (map fst (sa2_to_sa3 (parse_area_data area_lines)))
   \<and> distinct (map fst (sa3_to_state (parse_area_data area_lines)))
   \<and> distinct (map fst (state_to_sa3_map (parse_area_data area_lines)))
   \<and> map_of (sa2_to_sa3 (parse_area_data area_lines)) c =
        map_option f_sa3_code (find (\<lambda>r. f_sa2_code r = c) (area_rows area_lines))
   \<and> map_of (sa3_to_state (parse_area_data area_lines)) s3 =
        map_option f_state_name (find (\<lambda>r. f_sa3_code r = s3) (rev (kept_rows area_lines)))
   \<and> map_of (state_to_sa3_map (parse_area_data area_lines)) st =
        (let codes = map f_sa3_code (filter (\<lambda>r. f_state_name r = st) (kept_rows area_lines))
         in if codes = [] then None else Some (sort (remdups codes)))
   \<and> (\<forall>(state, l)\<in>set (state_to_sa3_map (parse_area_data area_lines)). sorted l \<and> distinct l)
   \<and> ((\<forall>r\<in>set (kept_rows area_lines). \<forall>r'\<in>set (kept_rows area_lines).
          f_sa3_code r = f_sa3_code r' \<longrightarrow> f_state_name r = f_state_name r') \<longrightarrow>
       (\<forall>l l'. map_of (state_to_sa3_map (parse_area_data area_lines)) st = Some l \<and>
               map_of (state_to_sa3_map (parse_area_data area_lines)) st' = Some l' \<and>
               s3 \<in> set l \<and> s3 \<in> set l' \<longrightarrow> st = st'))"
proof -
  have srt: "\<forall>(state, l)\<in>set (state_to_sa3_map (parse_area_data area_lines)). sorted l \<and> distinct l"
    using parse_area_data_sorted by blast
  have cons: "(\<forall>r\<in>set (kept_rows area_lines). \<forall>r'\<in>set (kept_rows area_lines).
          f_sa3_code r = f_sa3_code r' \<longrightarrow> f_state_name r = f_state_name r') \<longrightarrow>
       (\<forall>l l'. map_of (state_to_sa3_map (parse_area_data area_lines)) st = Some l \<and>
               map_of (state_to_sa3_map (parse_area_data area_lines)) st' = Some l' \<and>
               s3 \<in> set l \<and> s3 \<in> set l' \<longrightarrow> st = st')"
  proof (intro impI allI)
    fix l l'
    assume h: "\<forall>r\<in>set (kept_rows area_lines). \<forall>r'\<in>set (kept_rows area_lines).
          f_sa3_code r = f_sa3_code r' \<longrightarrow> f_state_name r = f_state_name r'"
      and m: "map_of (state_to_sa3_map (parse_area_data area_lines)) st = Some l \<and>
               map_of (state_to_sa3_map (parse_area_data area_lines)) st' = Some l' \<and>
               s3 \<in> set l \<and> s3 \<in> set l'"
    from m state_list_member[of area_lines st l s3] obtain r where
      r: "r \<in> set (kept_rows area_lines)" "f_state_name r = st" "f_sa3_code r = s3"
      by blast
    from m state_list_member[of area_lines st' l' s3] obtain r' where
      r': "r' \<in> set (kept_rows area_lines)" "f_state_name r' = st'" "f_sa3_code r' = s3"
      by blast
    from h r r' show "st = st'" by metis
  qed
  from parse_area_data_distinct[of area_lines] parse_area_data_first_wins[of area_lines c]
       parse_area_data_sa3_to_state[of area_lines s3] parse_area_data_state_list[of area_lines st]
       srt cons
  show ?thesis by (intro conjI) blast+
qed

theorem parse_area_data_hierarchy_witness:
  "map_of (sa2_to_sa3 (parse_area_data
      [''S_T code,S_T name,SA3 code,SA3 name,SA2 code,SA2 name'',
       ''4,South Australia,40101,Adelaide City,401011001,Adelaide'',
       ''4,south australia,40102,Adelaide Hills,401011001,Adelaide'',
       ''4,South Australia,40101,Adelaide City,401011002,North Adelaide''])) ''401011001''
     = Some ''40101''
   \<and> map_of (state_to_sa3_map (parse_area_data
      [''S_T code,S_T name,SA3 code,SA3 name,SA2 code,SA2 name'',
       ''4,South Australia,40101,Adelaide City,401011001,Adelaide'',
       ''4,south australia,40102,Adelaide Hills,401011001,Adelaide'',
       ''4,South Australia,40101,Adelaide City,401011002,North Adelaide''])) ''south australia''
     = Some [''40101'']
   \<and> \<not> (\<exists>l'. map_of (state_to_sa3_map (parse_area_data
      [''S_T code,S_T name,SA3 code,SA3 name,SA2 code,SA2 name'',
       ''4,South Australia,40101,Adelaide City,401011001,Adelaide'',
       ''4,south australia,40102,Adelaide Hills,401011001,Adelaide'',
       ''4,South Australia,40101,Adelaide City,401011002,North Adelaide''])) ''victoria'' = Some l'
        \<and> ''40101'' \<in> set l')"
proof -
  define L where "L = [''S_T code,S_T name,SA3 code,SA3 name,SA2 code,SA2 name'',
       ''4,South Australia,40101,Adelaide City,401011001,Adelaide'',
       ''4,south australia,40102,Adelaide Hills,401011001,Adelaide'',
       ''4,South Australia,40101,Adelaide City,401011002,North Adelaide'']"
  define sa where "sa = ''south australia''"
  define vic where "vic = ''victoria''"
  define k where "k = ''401011001''"
  define s3 where "s3 = ''40101''"
  note t = parse_area_data_hierarchy[where area_lines = L and c = k and st = sa and st' = vic
             and ?s3.0 = s3]
  have f: "map_option f_sa3_code (find (\<lambda>r. f_sa2_code r = k) (area_rows L)) = Some ''40101''"
    unfolding L_def k_def by code_simp
  have g: "(let codes = map f_sa3_code (filter (\<lambda>r. f_state_name r = sa) (kept_rows L))
            in if codes = [] then None else Some (sort (remdups codes))) = Some [''40101'']"
    unfolding L_def sa_def by code_simp
  have h: "\<forall>r\<in>set (kept_rows L). \<forall>r'\<in>set (kept_rows L).
          f_sa3_code r = f_sa3_code r' \<longrightarrow> f_state_name r = f_state_name r'"
    unfolding L_def by code_simp
  have ne: "sa \<noteq> vic"
    unfolding sa_def vic_def by simp
  have a: "map_of (sa2_to_sa3 (parse_area_data L)) k = Some ''40101''"
    using t[THEN conjunct2, THEN conjunct2, THEN conjunct2, THEN conjunct1] f by simp
  have b: "map_of (state_to_sa3_map (parse_area_data L)) sa = Some [''40101'']"
    using t[THEN conjunct2, THEN conjunct2, THEN conjunct2, THEN conjunct2, THEN conjunct2,
            THEN conjunct1] g by simp
  note u = t[THEN conjunct2, THEN conjunct2, THEN conjunct2, THEN conjunct2, THEN conjunct2,
            THEN conjunct2, THEN conjunct2, THEN mp, OF h, rule_format]
  have c: "\<not> (\<exists>l'. map_of (state_to_sa3_map (parse_area_data L)) vic = Some l' \<and> s3 \<in> set l')"
  proof
    assume "\<exists>l'. map_of (state_to_sa3_map (parse_area_data L)) vic = Some l' \<and> s3 \<in> set l'"
    then obtain l' where "map_of (state_to_sa3_map (parse_area_data L)) vic = Some l'" "s3 \<in> set l'"
      by blast
    with b have "sa = vic"
      using u[of "[''40101'']" l'] by (simp add: s3_def)
    with ne show False by simp
  qed
  from a b c show ?thesis
    unfolding L_def sa_def vic_def k_def s3_def by (intro conjI)
qed

text \<open>
  C4 as stated fails: two rows with different SA2 codes that place the same SA3 code in
  two states put that code into the SA3 lists of both states.
\<close>

theorem parse_area_data_counterexample:
  "map_of (state_to_sa3_map (parse_area_data
      [''S_T code,S_T name,SA3 code,SA3 name,SA2 code,SA2 name'',
       ''1,New South Wales,10901,Albury,109011172,Albury East'',
       ''2,Victoria,10901,Albury,204031068,Wodonga''])) ''new south wales'' = Some [''10901'']
   \<and> map_of (state_to_sa3_map (parse_area_data
      [''S_T code,S_T name,SA3 code,SA3 name,SA2 code,SA2 name'',
       ''1,New South Wales,10901,Albury,109011172,Albury East'',
       ''2,Victoria,10901,Albury,204031068,Wodonga''])) ''victoria'' = Some [''10901'']"
  by code_simp

section \<open>Properties of Project 2\<close>

subsection \<open>Reconciliation\<close>

lemma clean_loop_step:
  "clean_loop A (r # rest) seen =
     (if map_of A (pop_sa2_code r) = None \<or> pop_key r \<in> seen then clean_loop A rest seen
      else (annotate A r # fst (clean_loop A rest (insert (pop_key r) seen)),
            r # snd (clean_loop A rest (insert (pop_key r) seen))))"
  by (auto simp: Let_def pop_key_def annotate_def split: option.splits prod.splits)

lemma clean_loop_kept:
  "r \<in> set (snd (clean_loop A P seen)) \<Longrightarrow>
     r \<in> set P \<and> map_of A (pop_sa2_code r) \<noteq> None \<and> pop_key r \<notin> seen"
proof (induction P arbitrary: seen)
  case Nil
  then show ?case by simp
next
  case (Cons p P)
  from Cons.prems Cons.IH show ?case
    unfolding clean_loop_step by (fastforce split: if_splits)
qed

lemma clean_loop_distinct: "distinct (map pop_key (snd (clean_loop A P seen)))"
proof (induction P arbitrary: seen)
  case Nil
  show ?case by simp
next
  case (Cons p P)
  show ?case
  proof (cases "map_of A (pop_sa2_code p) = None \<or> pop_key p \<in> seen")
    case True
    then show ?thesis
      unfolding clean_loop_step using Cons.IH by simp
  next
    case False
    have "pop_key p \<notin> pop_key ` set (snd (clean_loop A P (insert (pop_key p) seen)))"
      using clean_loop_kept[of _ A P "insert (pop_key p) seen"] by force
    with False show ?thesis
      unfolding clean_loop_step using Cons.IH by simp
  qed
qed

lemma clean_loop_areas: "fst (clean_loop A P seen) = map (annotate A) (snd (clean_loop A P seen))"
proof (induction P arbitrary: seen)
  case Nil
  show ?case by simp
next
  case (Cons p P)
  show ?case
    unfolding clean_loop_step using Cons.IH by simp
qed

lemma clean_loop_fixed:
  "\<forall>r\<in>set L. map_of A (pop_sa2_code r) \<noteq> None \<and> pop_key r \<notin> seen \<Longrightarrow>
   distinct (map pop_key L) \<Longrightarrow> snd (clean_loop A L seen) = L"
proof (induction L arbitrary: seen)
  case Nil
  show ?case by simp
next
  case (Cons p L)
  have a: "\<forall>r\<in>set L. map_of A (pop_sa2_code r) \<noteq> None \<and> pop_key r \<notin> insert (pop_key p) seen"
    using Cons.prems by (auto simp: image_iff)
  have b: "distinct (map pop_key L)"
    using Cons.prems by simp
  have "snd (clean_loop A L (insert (pop_key p) seen)) = L"
    using a b by (rule Cons.IH)
  with Cons.prems show ?case
    unfolding clean_loop_step by auto
qed

lemma clean_loop_idem:
  "clean_loop A (snd (clean_loop A P {})) {} = clean_loop A P {}"
proof -
  let ?cp = "snd (clean_loop A P {})"
  have s: "snd (clean_loop A ?cp {}) = ?cp"
    using clean_loop_kept[of _ A P "{}"] clean_loop_distinct[of A P "{}"]
    by (intro clean_loop_fixed) auto
  have "fst (clean_loop A ?cp {}) = fst (clean_loop A P {})"
    unfolding clean_loop_areas[of A ?cp] clean_loop_areas[of A P] s ..
  with s show ?thesis by (simp add: prod_eq_iff)
qed

text \<open>
  C8. Reconciliation is idempotent: when \<open>clean_data\<close> returns the cleaned area rows and
  population records, running it again on the cleaned population records with the same
  area table returns exactly the same two lists. The cleaned records are records of the
  input, and no two of them share a deduplication key.
\<close>

theorem clean_data_idempotent:
  "clean_data areas pop_rows = Inr (cleaned_areas, cleaned_pops) \<Longrightarrow>
     clean_data areas cleaned_pops = Inr (cleaned_areas, cleaned_pops)
     \<and> set cleaned_pops \<subseteq> set pop_rows
     \<and> distinct (map pop_key cleaned_pops)"
proof -
  assume h: "clean_data areas pop_rows = Inr (cleaned_areas, cleaned_pops)"
  then obtain A where A: "index_by_sa2_code areas [] = Inr A"
    and c: "clean_loop A pop_rows {} = (cleaned_areas, cleaned_pops)"
    by (auto simp: clean_data_def split: sum.splits)
  from c have cp: "cleaned_pops = snd (clean_loop A pop_rows {})" by simp
  have "clean_loop A cleaned_pops {} = (cleaned_areas, cleaned_pops)"
    unfolding cp clean_loop_idem using c by simp
  with A have i: "clean_data areas cleaned_pops = Inr (cleaned_areas, cleaned_pops)"
    by (simp add: clean_data_def)
  have sub: "set cleaned_pops \<subseteq> set pop_rows"
    unfolding cp using clean_loop_kept[of _ A pop_rows "{}"] by blast
  have d: "distinct (map pop_key cleaned_pops)"
    unfolding cp by (rule clean_loop_distinct)
  from i sub d show ?thesis by blast
qed

theorem clean_data_idempotent_witness:
  "clean_data [[(''sa2 code'', ''401011001''), (''sa2 name'', ''adelaide'')]]
     [\<lparr>pop_sa2_name = ''Adelaide'', pop_sa2_code = ''401011001'', pop_age = ''0-4'',
        pop_population = 3\<rparr>,
      \<lparr>pop_sa2_name = ''Adelaide'', pop_sa2_code = ''401011001'', pop_age = ''0-4'',
        pop_population = 9\<rparr>,
      \<lparr>pop_sa2_name = ''Elsewhere'', pop_sa2_code = ''999999999'', pop_age = ''0-4'',
        pop_population = 5\<rparr>]
    = Inr ([[(''sa2 code'', ''401011001''), (''sa2 name'', ''Adelaide'')]],
           [\<lparr>pop_sa2_name = ''Adelaide'', pop_sa2_code = ''401011001'', pop_age = ''0-4'',
              pop_population = 3\<rparr>])
   \<and> clean_data [[(''sa2 code'', ''401011001''), (''sa2 name'', ''adelaide'')]]
     [\<lparr>pop_sa2_name = ''Adelaide'', pop_sa2_code = ''401011001'', pop_age = ''0-4'',
        pop_population = 3\<rparr>]
    = Inr ([[(''sa2 code'', ''401011001''), (''sa2 name'', ''Adelaide'')]],
           [\<lparr>pop_sa2_name = ''Adelaide'', pop_sa2_code = ''401011001'', pop_age = ''0-4'',
              pop_population = 3\<rparr>])"
proof -
  define A where "A = [[(''sa2 code'', ''401011001''), (''sa2 name'', ''adelaide'')]]"
  define P where "P = [\<lparr>pop_sa2_name = ''Adelaide'', pop_sa2_code = ''401011001'', pop_age = ''0-4'',
        pop_population = 3\<rparr>,
      \<lparr>pop_sa2_name = ''Adelaide'', pop_sa2_code = ''401011001'', pop_age = ''0-4'',
        pop_population = 9\<rparr>,
      \<lparr>pop_sa2_name = ''Elsewhere'', pop_sa2_code = ''999999999'', pop_age = ''0-4'',
        pop_population = 5\<rparr>]"
  define CA where "CA = [[(''sa2 code'', ''401011001''), (''sa2 name'', ''Adelaide'')]]"
  define CP where "CP = [\<lparr>pop_sa2_name = ''Adelaide'', pop_sa2_code = ''401011001'', pop_age = ''0-4'',
              pop_population = 3\<rparr>]"
  have e: "clean_data A P = Inr (CA, CP)"
    unfolding A_def P_def CA_def CP_def by code_simp
  from clean_data_idempotent[OF e] have i: "clean_data A CP = Inr (CA, CP)"
    by (rule conjunct1)
  from e i show ?thesis
    unfolding A_def P_def CA_def CP_def by (intro conjI)
qed

section \<open>Maximum search with tie-break\<close>

lemma max_keys_loop_some:
  "\<exists>M. max_keys_loop xs (Some m, ks) = (Some M, snd (max_keys_loop xs (Some m, ks)))
        \<and> m \<le> M \<and> (\<forall>e\<in>set xs. snd e \<le> M)
        \<and> (M = m \<or> (\<exists>e\<in>set xs. snd e = M))
        \<and> set (snd (max_keys_loop xs (Some m, ks)))
             = (if M = m then set ks else {}) \<union> {k. (k, M) \<in> set xs}"
proof (induction xs arbitrary: m ks)
  case Nil
  show ?case by simp
next
  case (Cons e xs)
  obtain k v where e: "e = (k, v)" by fastforce
  show ?case
  proof (cases "m < v")
    case True
    then have st: "max_keys_loop (e # xs) (Some m, ks) = max_keys_loop xs (Some v, [k])"
      using e by simp
    from Cons.IH[of v "[k]"] obtain M where
      M: "max_keys_loop xs (Some v, [k]) = (Some M, snd (max_keys_loop xs (Some v, [k])))"
        "v \<le> M" "\<forall>e\<in>set xs. snd e \<le> M" "M = v \<or> (\<exists>e\<in>set xs. snd e = M)"
        "set (snd (max_keys_loop xs (Some v, [k])))
           = (if M = v then set [k] else {}) \<union> {k. (k, M) \<in> set xs}"
      by blast
    have ne: "M \<noteq> m" using True M(2) by simp
    have s: "set (snd (max_keys_loop xs (Some v, [k])))
              = (if M = m then set ks else {}) \<union> {k'. (k', M) \<in> set (e # xs)}"
      unfolding M(5) using ne e by auto
    show ?thesis
      unfolding st
      using M(1) M(2) M(3) M(4) s True e
      by (intro exI[of _ M]) auto
  next
    case False
    show ?thesis
    proof (cases "v = m")
      case True
      then have st: "max_keys_loop (e # xs) (Some m, ks) = max_keys_loop xs (Some m, ks @ [k])"
        using e by simp
      from Cons.IH[of m "ks @ [k]"] obtain M where
        M: "max_keys_loop xs (Some m, ks @ [k])
              = (Some M, snd (max_keys_loop xs (Some m, ks @ [k])))"
          "m \<le> M" "\<forall>e\<in>set xs. snd e \<le> M" "M = m \<or> (\<exists>e\<in>set xs. snd e = M)"
          "set (snd (max_keys_loop xs (Some m, ks @ [k])))
             = (if M = m then set (ks @ [k]) else {}) \<union> {k. (k, M) \<in> set xs}"
        by blast
      have s: "set (snd (max_keys_loop xs (Some m, ks @ [k])))
              = (if M = m then set ks else {}) \<union> {k'. (k', M) \<in> set (e # xs)}"
        unfolding M(5) using True e by auto
      show ?thesis
        unfolding st
        using M(1) M(2) M(3) M(4) s True e
        by (intro exI[of _ M]) auto
    next
      case ne: False
      with False have st: "max_keys_loop (e # xs) (Some m, ks) = max_keys_loop xs (Some m, ks)"
        using e by simp
      from Cons.IH[of m ks] obtain M where
        M: "max_keys_loop xs (Some m, ks) = (Some M, snd (max_keys_loop xs (Some m, ks)))"
          "m \<le> M" "\<forall>e\<in>set xs. snd e \<le> M" "M = m \<or> (\<exists>e\<in>set xs. snd e = M)"
          "set (snd (max_keys_loop xs (Some m, ks)))
             = (if M = m then set ks else {}) \<union> {k. (k, M) \<in> set xs}"
        by blast
      have lt: "v < M" using False ne M(2) by simp
      have s: "set (snd (max_keys_loop xs (Some m, ks)))
              = (if M = m then set ks else {}) \<union> {k'. (k', M) \<in> set (e # xs)}"
        unfolding M(5) using lt e by auto
      show ?thesis
        unfolding st
        using M(1) M(2) M(3) M(4) s lt e
        by (intro exI[of _ M]) auto
    qed
  qed
qed

lemma tied_keys_max:
  assumes "\<forall>e\<in>set totals. snd e \<le> M" "\<exists>e\<in>set totals. snd e = M"
  shows "tied_keys totals = {k. (k, M) \<in> set totals}"
proof -
  have "\<And>e. e \<in> set totals \<Longrightarrow> (\<forall>e'\<in>set totals. snd e' \<le> snd e) = (snd e = M)"
    using assms by (metis order.antisym)
  then have "Set.filter (\<lambda>e. \<forall>e'\<in>set totals. snd e' \<le> snd e) (set totals)
           = {e \<in> set totals. snd e = M}"
    by auto
  then show ?thesis
    unfolding tied_keys_def by force
qed

lemma max_keys_loop_tied:
  assumes "totals \<noteq> []"
  shows "set (snd (max_keys_loop totals (None, []))) = tied_keys totals
         \<and> tied_keys totals \<noteq> {}"
proof -
  from assms obtain k v xs where t: "totals = (k, v) # xs"
    by (cases totals) auto
  have st: "max_keys_loop totals (None, []) = max_keys_loop xs (Some v, [k])"
    using t by simp
  from max_keys_loop_some[of xs v "[k]"] obtain M where M: "v \<le> M" "\<forall>e\<in>set xs. snd e \<le> M"
    "M = v \<or> (\<exists>e\<in>set xs. snd e = M)"
    "set (snd (max_keys_loop xs (Some v, [k])))
       = (if M = v then set [k] else {}) \<union> {k. (k, M) \<in> set xs}"
    by blast
  have a: "\<forall>e\<in>set totals. snd e \<le> M" using M t by auto
  have b: "\<exists>e\<in>set totals. snd e = M" using M t by auto
  have tk: "tied_keys totals = {k'. (k', M) \<in> set totals}"
    using a b by (rule tied_keys_max)
  have ne: "{k'. (k', M) \<in> set totals} \<noteq> {}"
    using b by force
  have "set (snd (max_keys_loop xs (Some v, [k]))) = {k'. (k', M) \<in> set totals}"
    unfolding M(4) using t by auto
  with tk ne show ?thesis
    unfolding st by simp
qed

lemma sort_head_Min:
  assumes "sort ks = x # rest"
  shows "x = Min (set ks)"
proof -
  have s: "sorted (x # rest)"
    using assms sorted_sort[where xs = ks] by simp
  have e: "set ks = set (x # rest)"
    using assms set_sort[where xs = ks and f = "\<lambda>x. x"] by simp
  show ?thesis
    unfolding e using s by (intro Min_eqI[symmetric]) auto
qed

lemma op1_winner_Min:
  assumes "totals \<noteq> []"
  shows "op1_winner totals = Inr (Min (tied_keys totals))"
proof -
  let ?ks = "snd (max_keys_loop totals (None, []))"
  from max_keys_loop_tied[OF assms] have ks: "set ?ks = tied_keys totals"
    and ne: "tied_keys totals \<noteq> {}"
    by simp_all
  from ks ne have "?ks \<noteq> []" by auto
  then have "sort ?ks \<noteq> []"
    by (metis length_0_conv length_sort)
  then obtain x rest where sr: "sort ?ks = x # rest"
    by (cases "sort ?ks") auto
  from sort_head_Min[OF sr] ks sr show ?thesis
    by (simp add: op1_winner_def)
qed

lemma tied_keys_set: "set totals = set totals' \<Longrightarrow> tied_keys totals = tied_keys totals'"
  by (simp add: tied_keys_def)

lemma max_sa3_loop_some:
  "\<exists>w c. max_sa3_loop totals xs (Some w0, c0) = Inr (Some w, c) \<and> c0 \<le> c
      \<and> (\<forall>s\<in>set xs. get0 totals s \<le> c)
      \<and> ((w = w0 \<and> c = c0) \<or> (w \<in> set xs \<and> get0 totals w = c))
      \<and> (\<forall>s\<in>set xs. get0 totals s = c \<longrightarrow> w \<le> s)
      \<and> (c = c0 \<longrightarrow> w \<le> w0)"
proof (induction xs arbitrary: w0 c0)
  case Nil
  show ?case by simp
next
  case (Cons s xs)
  let ?v = "get0 totals s"
  consider (gt) "c0 < ?v" | (tie_lt) "?v = c0" "s < w0" | (tie_ge) "?v = c0" "\<not> s < w0"
    | (lt) "?v < c0"
    by linarith
  then show ?case
  proof cases
    case gt
    then have st: "max_sa3_loop totals (s # xs) (Some w0, c0) = max_sa3_loop totals xs (Some s, ?v)"
      by (simp add: Let_def)
    from Cons.IH[of s ?v] obtain w c where
      r: "max_sa3_loop totals xs (Some s, ?v) = Inr (Some w, c)" "?v \<le> c"
         "\<forall>t\<in>set xs. get0 totals t \<le> c"
         "(w = s \<and> c = ?v) \<or> (w \<in> set xs \<and> get0 totals w = c)"
         "\<forall>t\<in>set xs. get0 totals t = c \<longrightarrow> w \<le> t" "c = ?v \<longrightarrow> w \<le> s"
      by blast
    show ?thesis
      unfolding st using r gt by (intro exI[of _ w] exI[of _ c]) auto
  next
    case tie_lt
    then have st: "max_sa3_loop totals (s # xs) (Some w0, c0) = max_sa3_loop totals xs (Some s, ?v)"
      by (simp add: Let_def)
    from Cons.IH[of s ?v] obtain w c where
      r: "max_sa3_loop totals xs (Some s, ?v) = Inr (Some w, c)" "?v \<le> c"
         "\<forall>t\<in>set xs. get0 totals t \<le> c"
         "(w = s \<and> c = ?v) \<or> (w \<in> set xs \<and> get0 totals w = c)"
         "\<forall>t\<in>set xs. get0 totals t = c \<longrightarrow> w \<le> t" "c = ?v \<longrightarrow> w \<le> s"
      by blast
    show ?thesis
      unfolding st using r tie_lt by (intro exI[of _ w] exI[of _ c]) auto
  next
    case tie_ge
    then have st: "max_sa3_loop totals (s # xs) (Some w0, c0) = max_sa3_loop totals xs (Some w0, c0)"
      by (simp add: Let_def)
    from Cons.IH[of w0 c0] obtain w c where
      r: "max_sa3_loop totals xs (Some w0, c0) = Inr (Some w, c)" "c0 \<le> c"
         "\<forall>t\<in>set xs. get0 totals t \<le> c"
         "(w = w0 \<and> c = c0) \<or> (w \<in> set xs \<and> get0 totals w = c)"
         "\<forall>t\<in>set xs. get0 totals t = c \<longrightarrow> w \<le> t" "c = c0 \<longrightarrow> w \<le> w0"
      by blast
    show ?thesis
      unfolding st using r tie_ge by (intro exI[of _ w] exI[of _ c]) auto
  next
    case lt
    then have st: "max_sa3_loop totals (s # xs) (Some w0, c0) = max_sa3_loop totals xs (Some w0, c0)"
      by (simp add: Let_def)
    from Cons.IH[of w0 c0] obtain w c where
      r: "max_sa3_loop totals xs (Some w0, c0) = Inr (Some w, c)" "c0 \<le> c"
         "\<forall>t\<in>set xs. get0 totals t \<le> c"
         "(w = w0 \<and> c = c0) \<or> (w \<in> set xs \<and> get0 totals w = c)"
         "\<forall>t\<in>set xs. get0 totals t = c \<longrightarrow> w \<le> t" "c = c0 \<longrightarrow> w \<le> w0"
      by blast
    show ?thesis
      unfolding st using r lt by (intro exI[of _ w] exI[of _ c]) auto
  qed
qed

lemma max_sa3_loop_none:
  "max_sa3_loop totals xs (None, - 1) = Inr (Some w, c) \<Longrightarrow>
     - 1 < c \<and> w \<in> set xs \<and> get0 totals w = c
     \<and> (\<forall>s\<in>set xs. get0 totals s \<le> c)
     \<and> (\<forall>s\<in>set xs. get0 totals s = c \<longrightarrow> w \<le> s)"
proof (induction xs)
  case Nil
  then show ?case by simp
next
  case (Cons s xs)
  let ?v = "get0 totals s"
  consider (gt) "- 1 < ?v" | (eq) "?v = - 1" | (lt) "?v < - 1"
    by linarith
  then show ?case
  proof cases
    case gt
    then have st: "max_sa3_loop totals (s # xs) (None, - 1) = max_sa3_loop totals xs (Some s, ?v)"
      by (simp add: Let_def)
    from max_sa3_loop_some[of totals xs s ?v] obtain w' c' where
      r: "max_sa3_loop totals xs (Some s, ?v) = Inr (Some w', c')" "?v \<le> c'"
         "\<forall>t\<in>set xs. get0 totals t \<le> c'"
         "(w' = s \<and> c' = ?v) \<or> (w' \<in> set xs \<and> get0 totals w' = c')"
         "\<forall>t\<in>set xs. get0 totals t = c' \<longrightarrow> w' \<le> t" "c' = ?v \<longrightarrow> w' \<le> s"
      by blast
    from Cons.prems st r(1) have "w' = w" "c' = c" by simp_all
    with r gt show ?thesis by auto
  next
    case eq
    then have "max_sa3_loop totals (s # xs) (None, - 1) = Inl TypeError"
      by (simp add: Let_def)
    with Cons.prems show ?thesis by simp
  next
    case lt
    then have "max_sa3_loop totals (s # xs) (None, - 1) = max_sa3_loop totals xs (None, - 1)"
      by (simp add: Let_def)
    with Cons.prems have "max_sa3_loop totals xs (None, - 1) = Inr (Some w, c)" by simp
    from Cons.IH[OF this] lt show ?thesis by auto
  qed
qed

lemma max_sa3_loop_nonneg:
  assumes "xs \<noteq> []" "\<forall>s\<in>set xs. 0 \<le> get0 totals s"
  shows "\<exists>w c. max_sa3_loop totals xs (None, - 1) = Inr (Some w, c)"
proof -
  from assms(1) obtain s rest where x: "xs = s # rest" by (cases xs) auto
  with assms(2) have "- 1 < get0 totals s" by simp
  then have "max_sa3_loop totals xs (None, - 1) = max_sa3_loop totals rest (Some s, get0 totals s)"
    unfolding x by (simp add: Let_def)
  with max_sa3_loop_some[of totals rest s "get0 totals s"] show ?thesis by auto
qed

lemma winner_is_Min_Max:
  assumes "w \<in> set xs" "get0 totals w = c" "\<forall>s\<in>set xs. get0 totals s \<le> c"
    "\<forall>s\<in>set xs. get0 totals s = c \<longrightarrow> w \<le> s"
  shows "w = Min (tied_sa3 totals xs) \<and> c = Max (get0 totals ` set xs)"
proof -
  have t: "tied_sa3 totals xs = {s \<in> set xs. get0 totals s = c}"
    unfolding tied_sa3_def using assms(1,2,3) by (auto; force)
  have m: "Min {s \<in> set xs. get0 totals s = c} = w"
    using assms by (intro Min_eqI) auto
  have x: "Max (get0 totals ` set xs) = c"
    using assms by (intro Max_eqI) auto
  from t m x show ?thesis by simp
qed

lemma max_sa3_loop_winner:
  assumes "max_sa3_loop totals xs (None, - 1) = Inr (Some w, c)"
  shows "w = Min (tied_sa3 totals xs) \<and> c = Max (get0 totals ` set xs)"
  using max_sa3_loop_none[OF assms] by (intro winner_is_Min_Max) auto

lemma tied_sa3_set: "set xs = set xs' \<Longrightarrow> tied_sa3 totals xs = tied_sa3 totals xs'"
  by (simp add: tied_sa3_def)

lemma collect_map: "\<forall>x\<in>set xs. g x = Inr (f x) \<Longrightarrow> collect g xs = Inr (map f xs)"
  by (induction xs) simp_all

lemma op1_entry_Min:
  assumes "by_state \<noteq> []" "by_sa3 \<noteq> []" "by_sa2 \<noteq> []"
  shows "op1_entry (a, by_state, by_sa3, by_sa2) =
           Inr (a, Min (tied_keys by_state), Min (tied_keys by_sa3), Min (tied_keys by_sa2))"
  using assms by (simp add: op1_entry_def op1_winner_Min)

text \<open>
  What the two searches select. In \<open>output_OP1\<close> each level's winner is the
  lexicographically smallest key among those tied at the largest total, whatever the order
  in which the dictionary is iterated. In Project 1 the search of a state's SA3 list starts
  from \<open>max_sa3 = None\<close> and \<open>max_age_count = -1\<close>: when no total of the state is negative
  it selects the lexicographically smallest SA3 code among those tied at the largest total,
  whatever the order of the list; and whenever it selects an SA3 at all, it is that one.
\<close>

theorem extremal_tiebreak:
  "(totals \<noteq> [] \<longrightarrow> op1_winner totals = Inr (Min (tied_keys totals)))
   \<and> (totals \<noteq> [] \<and> set totals' = set totals \<longrightarrow> op1_winner totals' = op1_winner totals)
   \<and> (by_state \<noteq> [] \<and> by_sa3 \<noteq> [] \<and> by_sa2 \<noteq> [] \<longrightarrow>
        op1_entry (a, by_state, by_sa3, by_sa2) =
          Inr (a, Min (tied_keys by_state), Min (tied_keys by_sa3), Min (tied_keys by_sa2)))
   \<and> (sa3s \<noteq> [] \<and> (\<forall>s\<in>set sa3s. 0 \<le> get0 age_total s) \<longrightarrow>
        max_sa3_loop age_total sa3s (None, - 1) =
          Inr (Some (Min (tied_sa3 age_total sa3s)), Max (get0 age_total ` set sa3s)))
   \<and> (sa3s \<noteq> [] \<and> (\<forall>s\<in>set sa3s. 0 \<le> get0 age_total s) \<and> set sa3s' = set sa3s \<longrightarrow>
        max_sa3_loop age_total sa3s' (None, - 1) = max_sa3_loop age_total sa3s (None, - 1))
   \<and> (max_sa3_loop age_total sa3s (None, - 1) = Inr (Some w, c) \<longrightarrow>
        w = Min (tied_sa3 age_total sa3s) \<and> c = Max (get0 age_total ` set sa3s))"
proof -
  have p2: "totals \<noteq> [] \<longrightarrow> op1_winner totals = Inr (Min (tied_keys totals))"
    using op1_winner_Min by blast
  have p2o: "totals \<noteq> [] \<and> set totals' = set totals \<longrightarrow> op1_winner totals' = op1_winner totals"
  proof (intro impI)
    assume h: "totals \<noteq> [] \<and> set totals' = set totals"
    then have "totals' \<noteq> []" by auto
    with h show "op1_winner totals' = op1_winner totals"
      using op1_winner_Min[of totals] op1_winner_Min[of totals'] tied_keys_set[of totals' totals]
      by simp
  qed
  have p2e: "by_state \<noteq> [] \<and> by_sa3 \<noteq> [] \<and> by_sa2 \<noteq> [] \<longrightarrow>
        op1_entry (a, by_state, by_sa3, by_sa2) =
          Inr (a, Min (tied_keys by_state), Min (tied_keys by_sa3), Min (tied_keys by_sa2))"
    using op1_entry_Min by blast
  have nn: "\<And>xs. xs \<noteq> [] \<and> (\<forall>s\<in>set xs. 0 \<le> get0 age_total s) \<Longrightarrow>
        max_sa3_loop age_total xs (None, - 1) =
          Inr (Some (Min (tied_sa3 age_total xs)), Max (get0 age_total ` set xs))"
  proof -
    fix xs
    assume h: "xs \<noteq> [] \<and> (\<forall>s\<in>set xs. 0 \<le> get0 age_total s)"
    then obtain w' c' where r: "max_sa3_loop age_total xs (None, - 1) = Inr (Some w', c')"
      using max_sa3_loop_nonneg[of xs age_total] by blast
    from max_sa3_loop_winner[OF r] r
    show "max_sa3_loop age_total xs (None, - 1) =
          Inr (Some (Min (tied_sa3 age_total xs)), Max (get0 age_total ` set xs))"
      by simp
  qed
  have p1: "sa3s \<noteq> [] \<and> (\<forall>s\<in>set sa3s. 0 \<le> get0 age_total s) \<longrightarrow>
        max_sa3_loop age_total sa3s (None, - 1) =
          Inr (Some (Min (tied_sa3 age_total sa3s)), Max (get0 age_total ` set sa3s))"
    using nn by blast
  have p1o: "sa3s \<noteq> [] \<and> (\<forall>s\<in>set sa3s. 0 \<le> get0 age_total s) \<and> set sa3s' = set sa3s \<longrightarrow>
        max_sa3_loop age_total sa3s' (None, - 1) = max_sa3_loop age_total sa3s (None, - 1)"
  proof (intro impI)
    assume h: "sa3s \<noteq> [] \<and> (\<forall>s\<in>set sa3s. 0 \<le> get0 age_total s) \<and> set sa3s' = set sa3s"
    then have h': "sa3s' \<noteq> [] \<and> (\<forall>s\<in>set sa3s'. 0 \<le> get0 age_total s)" by auto
    from h have s: "set sa3s' = set sa3s" by simp
    show "max_sa3_loop age_total sa3s' (None, - 1) = max_sa3_loop age_total sa3s (None, - 1)"
      using nn[OF h'] nn[of sa3s] h tied_sa3_set[OF s, of age_total] s by simp
  qed
  have p1w: "max_sa3_loop age_total sa3s (None, - 1) = Inr (Some w, c) \<longrightarrow>
        w = Min (tied_sa3 age_total sa3s) \<and> c = Max (get0 age_total ` set sa3s)"
    using max_sa3_loop_winner by blast
  from p2 p2o p2e p1 p1o p1w show ?thesis by blast
qed

theorem extremal_tiebreak_witness:
  "op1_winner [(''victoria'', 30), (''new south wales'', 30), (''tasmania'', 10)]
     = Inr ''new south wales''
   \<and> max_sa3_loop [(''10102'', 7), (''10101'', 7), (''10103'', 2)]
        [''10101'', ''10102'', ''10103''] (None, - 1) = Inr (Some ''10101'', 7)"
proof -
  define T where "T = [(''victoria'', 30 :: int), (''new south wales'', 30), (''tasmania'', 10)]"
  define A where "A = [(''10102'', 7 :: int), (''10101'', 7), (''10103'', 2)]"
  define S where "S = [''10101'', ''10102'', ''10103'']"
  have t: "T \<noteq> []"
    unfolding T_def by simp
  have m: "Min (tied_keys T) = ''new south wales''"
    unfolding T_def by code_simp
  have s: "S \<noteq> [] \<and> (\<forall>s\<in>set S. 0 \<le> get0 A s)"
    unfolding S_def A_def by code_simp
  have w: "Min (tied_sa3 A S) = ''10101''"
    unfolding S_def A_def by code_simp
  have x: "Max (get0 A ` set S) = 7"
    unfolding S_def A_def by code_simp
  note e = extremal_tiebreak[where totals = T and age_total = A and sa3s = S]
  have a: "op1_winner T = Inr ''new south wales''"
    using e[THEN conjunct1, THEN mp, OF t] m by simp
  have b: "max_sa3_loop A S (None, - 1) = Inr (Some ''10101'', 7)"
    using e[THEN conjunct2, THEN conjunct2, THEN conjunct2, THEN conjunct1, THEN mp, OF s] w x
    by simp
  from a b show ?thesis
    unfolding T_def A_def S_def by (intro conjI)
qed

text \<open>
  C3. When several candidates are tied at the maximum, the winner is the lexicographically
  smallest tied key. The search of Project 1 does not do that when the largest total of a
  state is negative, which \<open>int\<close> accepts in a population cell: with two SA3s tied at the
  maximum \<open>-5\<close> no SA3 is selected and the state is reported with an empty name, and a
  first total equal to the initial \<open>-1\<close> compares a code with \<open>None\<close>, a \<open>TypeError\<close>.
\<close>

theorem max_sa3_none_sentinel:
  "state_max_sa3 [''Area_Code_Level2,Area_Name_Level2,0-4,5-9'',
                  ''101011001,Goulburn,-5,7'', ''101021007,Braidwood,-5,9''] 0
     (parse_area_data [''S_T code,S_T name,SA3 code,SA3 name,SA2 code,SA2 name'',
                       ''1,New South Wales,10101,Goulburn,101011001,Goulburn'',
                       ''1,New South Wales,10102,Queanbeyan,101021007,Braidwood''])
     = Returns [(''new south wales'', [], 0)]
   \<and> max_sa3_loop [(''10101'', - 5), (''10102'', - 5)] [''10101'', ''10102''] (None, - 1)
     = Inr (None, - 1)
   \<and> max_sa3_loop [(''10101'', - 1), (''10102'', 4)] [''10101'', ''10102''] (None, - 1)
     = Inl TypeError"
  by code_simp

lemma update_nonempty: "AList.update k v d \<noteq> []"
  by (cases d) auto

lemma set_update_subset: "set (AList.update k v d) \<subseteq> insert (k, v) (set d)"
  by (induction d) auto

lemma levels_nonempty_update:
  assumes "levels_nonempty results" "a \<noteq> []" "b \<noteq> []" "c \<noteq> []"
  shows "levels_nonempty (AList.update k (a, b, c) results)"
proof -
  have "\<forall>e\<in>set (AList.update k (a, b, c) results). e = (k, a, b, c) \<or> e \<in> set results"
    using set_update_subset[of k "(a, b, c)" results] by blast
  with assms show ?thesis
    unfolding levels_nonempty_def by fastforce
qed

lemma dict_add_nonempty: "dict_add k v d \<noteq> []"
  by (simp add: dict_add_def update_nonempty)

lemma levels_nonempty_step:
  assumes "levels_nonempty results"
  shows "levels_nonempty (op1_accumulate lookup results r)"
proof (cases "map_of lookup (py_lower (pop_sa2_name r))")
  case None
  with assms show ?thesis by (simp add: op1_accumulate_def Let_def)
next
  case (Some info)
  obtain a b c where t: "(case map_of results (pop_age r) of None \<Rightarrow> ([], [], []) | Some t \<Rightarrow> t)
      = (a, b, c)"
    by (metis prod_cases3)
  have e: "op1_accumulate lookup results r =
      AList.update (pop_age r)
        (dict_add (info_state_name info) (pop_population r) a,
         dict_add (info_sa3_name info) (pop_population r) b,
         dict_add (py_lower (pop_sa2_name r)) (pop_population r) c) results"
    using Some t by (simp add: op1_accumulate_def Let_def)
  show ?thesis
    unfolding e using assms dict_add_nonempty
    by (intro levels_nonempty_update)
qed

lemma levels_nonempty_foldl:
  "levels_nonempty results \<Longrightarrow> levels_nonempty (foldl (op1_accumulate lookup) results rs)"
  by (induction rs arbitrary: results) (simp_all add: levels_nonempty_step)

lemma output_OP1_formula:
  "output_OP1 pop_rows lookup =
     Inr (map op1_winners (foldl (op1_accumulate lookup) [] pop_rows))"
proof -
  have "levels_nonempty (foldl (op1_accumulate lookup) [] pop_rows)"
    by (rule levels_nonempty_foldl) (simp add: levels_nonempty_def)
  then have "\<forall>x\<in>set (foldl (op1_accumulate lookup) [] pop_rows). op1_entry x = Inr (op1_winners x)"
    by (auto simp: levels_nonempty_def op1_winners_def op1_entry_Min)
  then show ?thesis
    unfolding output_OP1_def by (rule collect_map)
qed

text \<open>
  C10. \<open>output_OP1\<close> never fails, and for each age it reports, level by level, the
  smallest key among those tied at that level's own maximum: the three winners are chosen
  independently. They need not be nested: there is an input whose winning SA2 lies in
  another SA3 than the winning SA3, and whose winning SA3 has no SA2 in the winning
  state.
\<close>

theorem op1_winners_not_nested:
  "output_OP1 pop_rows lookup =
     Inr (map op1_winners (foldl (op1_accumulate lookup) [] pop_rows))
   \<and> (\<exists>rows lk a max_state max_sa3 max_sa2 info.
        output_OP1 rows lk = Inr [(a, max_state, max_sa3, max_sa2)]
        \<and> map_of lk max_sa2 = Some info \<and> info_sa3_name info \<noteq> max_sa3
        \<and> (\<forall>(n, i)\<in>set lk. info_sa3_name i = max_sa3 \<longrightarrow> info_state_name i \<noteq> max_state))"
proof -
  have r: "output_OP1 nested_example_pops nested_example_lookup
             = Inr [(''0-4'', ''new south wales'', ''melbourne city'', ''albury'')]"
    by code_simp
  have i: "map_of nested_example_lookup ''albury'' =
             Some \<lparr>info_state_name = ''new south wales'', info_sa3_name = ''albury'',
                    info_state_code = ''1'', info_sa3_code = ''10901'',
                    info_sa2_code = ''109011172''\<rparr>"
    by code_simp
  have n: "info_sa3_name \<lparr>info_state_name = ''new south wales'', info_sa3_name = ''albury'',
                    info_state_code = ''1'', info_sa3_code = ''10901'',
                    info_sa2_code = ''109011172''\<rparr> \<noteq> ''melbourne city''"
    by simp
  have s: "\<forall>(n, i)\<in>set nested_example_lookup.
             info_sa3_name i = ''melbourne city'' \<longrightarrow> info_state_name i \<noteq> ''new south wales''"
    by code_simp
  from r i n s have "\<exists>rows lk a max_state max_sa3 max_sa2 info.
        output_OP1 rows lk = Inr [(a, max_state, max_sa3, max_sa2)]
        \<and> map_of lk max_sa2 = Some info \<and> info_sa3_name info \<noteq> max_sa3
        \<and> (\<forall>(n, i)\<in>set lk. info_sa3_name i = max_sa3 \<longrightarrow> info_state_name i \<noteq> max_state)"
    by blast
  with output_OP1_formula[of pop_rows lookup] show ?thesis by (intro conjI)
qed

theorem op1_winners_not_nested_witness:
  "output_OP1 nested_example_pops nested_example_lookup
     = Inr [(''0-4'', ''new south wales'', ''melbourne city'', ''albury'')]"
proof -
  have e: "map op1_winners (foldl (op1_accumulate nested_example_lookup) [] nested_example_pops)
             = [(''0-4'', ''new south wales'', ''melbourne city'', ''albury'')]"
    by code_simp
  from op1_winners_not_nested[where pop_rows = nested_example_pops and lookup = nested_example_lookup, THEN conjunct1]
  show ?thesis
    unfolding e .
qed

end
